theory Spec2Isabelle
  imports Complex_Main "HOL-Library.Sublist"
begin

section \<open>Conventions of the embedding\<close>

text \<open>
  The blog analytics service (normalizeUrl, fetchWithProxy, the two scores and
  analyzeBlogAndFetch) and the collection handlers of App.tsx (handleAddBlog,
  handleRefreshBlog) are embedded as HOL functions.

  \<^item> A JavaScript string is a \<open>string\<close>: a list of 8-bit characters, read as the
    code units below 256.
  \<^item> A JavaScript number is a value of a type \<open>'n\<close>, and the arithmetic of the
    runtime on it (IEEE doubles, with NaN and the infinities) is a parameter: the
    record \<open>'n Arith\<close> of the operations the source uses. Nothing is assumed of these
    operations, so what is proved holds for the doubles of every engine.
  \<^item> A number that the runtime guarantees to be an integer or NaN (the time value of
    a \<open>Date\<close>, the result of \<open>parseInt\<close>) is an \<open>int option\<close>, \<open>None\<close> being NaN.
    A \<open>Date\<close> is its time value: \<open>None\<close> is Invalid Date.
  \<^item> The clock, the network, the classifier and the regular-expression helpers are
    parameters of the functions that use them.
  \<^item> A thrown error is the \<open>Inl\<close> of a sum type.
\<close>

section \<open>String helpers of the runtime\<close>

definition startsWith :: "string \<Rightarrow> string \<Rightarrow> bool" where
  "startsWith s p = (take (length p) s = p)"

definition endsWith :: "string \<Rightarrow> string \<Rightarrow> bool" where
  "endsWith s p = (length p \<le> length s \<and> drop (length s - length p) s = p)"

text \<open>\<open>String.prototype.includes\<close>: the pattern occurs at some offset.\<close>

fun includesStr :: "string \<Rightarrow> string \<Rightarrow> bool" where
  "includesStr [] p = (p = [])"
| "includesStr (c # s) p = (startsWith (c # s) p \<or> includesStr s p)"

text \<open>
  The characters \<open>String.prototype.trim\<close> removes, among the code units below 256:
  TAB, LF, VT, FF, CR, SPACE and NO-BREAK SPACE.
\<close>

definition isWhiteSpace :: "char \<Rightarrow> bool" where
  "isWhiteSpace c = (of_char c \<in> {9, 10, 11, 12, 13, 32, 160 :: nat})"

definition trim :: "string \<Rightarrow> string" where
  "trim s = rev (dropWhile isWhiteSpace (rev (dropWhile isWhiteSpace s)))"

text \<open>
  \<open>String.prototype.toLowerCase\<close> on the code units below 256: A-Z, and the
  capital letters of Latin-1 (192 to 222, the multiplication sign 215 apart).
\<close>

definition toLowerCase :: "string \<Rightarrow> string" where
  "toLowerCase s =
     map (\<lambda>c. let n = (of_char c :: nat)
              in if (65 \<le> n \<and> n \<le> 90) \<or> (192 \<le> n \<and> n \<le> 222 \<and> n \<noteq> 215)
                 then char_of (n + 32) else c) s"

text \<open>A non-negative integer in a template literal: its decimal digits.\<close>

function numberToString :: "nat \<Rightarrow> string" where
  "numberToString n =
     (if n < 10 then [char_of (48 + n)]
      else numberToString (n div 10) @ [char_of (48 + n mod 10)])"
  by pat_completeness auto
termination
  by (relation "measure id") auto

declare numberToString.simps [simp del]

text \<open>
  A JavaScript \<open>Set\<close> keeps its members in insertion order; it is the list of its
  members. \<open>add\<close> appends a value that is not a member yet, \<open>new Set(iterable)\<close>
  adds the values one by one, and \<open>Array.from\<close> returns the list.
\<close>

definition setAdd :: "'a list \<Rightarrow> 'a \<Rightarrow> 'a list" where
  "setAdd s x = (if x \<in> set s then s else s @ [x])"

definition newSet :: "'a list \<Rightarrow> 'a list" where
  "newSet xs = foldl setAdd [] xs"

text \<open>
  \<open>parseInt(s, 10)\<close>: leading whitespace is skipped, a sign is read, then the longest
  run of decimal digits; with no digit the result is NaN.
\<close>

definition isDigit :: "char \<Rightarrow> bool" where
  "isDigit c = (48 \<le> (of_char c :: nat) \<and> (of_char c :: nat) \<le> 57)"

definition digitsValue :: "string \<Rightarrow> int" where
  "digitsValue ds = foldl (\<lambda>v c. 10 * v + (int (of_char c) - 48)) 0 ds"

definition parseInt :: "string \<Rightarrow> int option" where
  "parseInt s =
     (let t = dropWhile isWhiteSpace s;
          negative = (t \<noteq> [] \<and> hd t = CHR ''-'');
          r = (if t \<noteq> [] \<and> (hd t = CHR ''-'' \<or> hd t = CHR ''+'') then tl t else t);
          ds = takeWhile isDigit r
      in if ds = [] then None
         else Some (if negative then - digitsValue ds else digitsValue ds))"

section \<open>Numbers of the runtime\<close>

text \<open>
  The operations on numbers that the source uses. \<open>numLit x\<close> is the number that a
  numeric literal of value \<open>x\<close> denotes (for an integer such as an array length or a
  time value: that integer as a number); \<open>numLess a b\<close> is \<open>a < b\<close> (so \<open>b > a\<close>), and
  \<open>numStrictEq\<close> is \<open>===\<close>. The others are \<open>+\<close>, \<open>-\<close>, \<open>*\<close>, \<open>/\<close> and the functions of
  \<open>Math\<close>.
\<close>

record 'n Arith =
  numLit :: "real \<Rightarrow> 'n"
  numNaN :: 'n
  numAdd :: "'n \<Rightarrow> 'n \<Rightarrow> 'n"
  numSub :: "'n \<Rightarrow> 'n \<Rightarrow> 'n"
  numMul :: "'n \<Rightarrow> 'n \<Rightarrow> 'n"
  numDiv :: "'n \<Rightarrow> 'n \<Rightarrow> 'n"
  numLess :: "'n \<Rightarrow> 'n \<Rightarrow> bool"
  numStrictEq :: "'n \<Rightarrow> 'n \<Rightarrow> bool"
  mathMin :: "'n \<Rightarrow> 'n \<Rightarrow> 'n"
  mathMax :: "'n \<Rightarrow> 'n \<Rightarrow> 'n"
  mathAbs :: "'n \<Rightarrow> 'n"
  mathSqrt :: "'n \<Rightarrow> 'n"
  mathPow :: "'n \<Rightarrow> 'n \<Rightarrow> 'n"
  mathLog10 :: "'n \<Rightarrow> 'n"
  mathRound :: "'n \<Rightarrow> 'n"

text \<open>An integer or NaN as a number: \<open>getTime()\<close> of a date, the result of \<open>parseInt\<close>.\<close>

definition numOfInt :: "'n Arith \<Rightarrow> int option \<Rightarrow> 'n" where
  "numOfInt A i = (case i of None \<Rightarrow> numNaN A | Some k \<Rightarrow> numLit A (real_of_int k))"

text \<open>\<open>(1000 * 60 * 60 * 24)\<close> and \<open>(1000 * 60 * 60 * 24 * 365)\<close>, multiplied from the left.\<close>

definition msPerDay :: "'n Arith \<Rightarrow> 'n" where
  "msPerDay A =
     numMul A (numMul A (numMul A (numLit A 1000) (numLit A 60)) (numLit A 60)) (numLit A 24)"

definition msPerYear :: "'n Arith \<Rightarrow> 'n" where
  "msPerYear A = numMul A (msPerDay A) (numLit A 365)"

section \<open>normalizeUrl\<close>

text \<open>
  \<^verbatim>\<open>while (cleanUrl.endsWith('/')) { cleanUrl = cleanUrl.slice(0, -1); }\<close>
  \<open>slice(0, -1)\<close> drops the last character.
\<close>

function stripSlashes :: "string \<Rightarrow> string" where
  "stripSlashes cleanUrl =
     (if endsWith cleanUrl ''/'' then stripSlashes (butlast cleanUrl) else cleanUrl)"
  by pat_completeness auto
termination
  by (relation "measure length") (auto simp: endsWith_def)

declare stripSlashes.simps [simp del]

definition normalizeUrl :: "string \<Rightarrow> string" where
  "normalizeUrl url =
     (let cleanUrl = stripSlashes (trim url)
      in if \<not> startsWith cleanUrl ''http'' then ''https://'' @ cleanUrl else cleanUrl)"

text \<open>
  The normalizer in three steps on lists: trim, remove every trailing slash, prefix
  \<open>https://\<close> exactly when the result does not start with the four characters
  \<open>http\<close>, in lower case and whatever follows them.
\<close>

definition removeTrailingSlashes :: "string \<Rightarrow> string" where
  "removeTrailingSlashes s = rev (dropWhile (\<lambda>c. c = CHR ''/'') (rev s))"

definition normalizeBySteps :: "string \<Rightarrow> string" where
  "normalizeBySteps x =
     (let r = removeTrailingSlashes (trim x)
      in if prefix ''http'' r then r else ''https://'' @ r)"


section \<open>Relay fetcher\<close>

datatype error = Error (message: string)

text \<open>A \<open>Response\<close>; its \<open>status\<close> is the field \<open>httpStatus\<close> here.\<close>

record Response =
  ok :: bool
  httpStatus :: nat
  body :: string

text \<open>
  What one \<open>await fetch(url, {signal})\<close> does: it resolves with a response, or it
  rejects (a network failure, or the abort of the 20 second timer).
\<close>

datatype FetchOutcome = Resolved Response | Rejected error

definition PROXIES :: "string list" where
  "PROXIES =
     [''https://corsproxy.io/?'',
      ''https://api.allorigins.win/raw?url='',
      ''https://api.codetabs.com/v1/proxy?quest='',
      ''https://cors-anywhere.herokuapp.com/'']"

text \<open>
  The \<open>for (const proxyBase of PROXIES)\<close> loop with its variable \<open>lastError\<close>, and
  the \<open>throw lastError || new Error(...)\<close> after it. The first component of the
  result lists the URLs that were fetched, in order.
\<close>

fun tryProxies ::
  "(string \<Rightarrow> FetchOutcome) \<Rightarrow> string \<Rightarrow> string list \<Rightarrow> error option
     \<Rightarrow> string list \<times> (error + Response)" where
  "tryProxies fetch encodedTarget [] lastError =
     ([], Inl (case lastError of
                 Some e \<Rightarrow> e
               | None \<Rightarrow> Error ''All proxies failed. Check your internet connection or try disabling ad-blockers.''))"
| "tryProxies fetch encodedTarget (proxyBase # rest) lastError =
     (let url = proxyBase @ encodedTarget
      in case fetch url of
           Resolved response \<Rightarrow>
             if ok response then ([url], Inr response)
             else (let (urls, r) =
                         tryProxies fetch encodedTarget rest
                           (Some (Error (''Proxy returned status '' @ numberToString (httpStatus response))))
                   in (url # urls, r))
         | Rejected e \<Rightarrow>
             (let (urls, r) = tryProxies fetch encodedTarget rest (Some e)
              in (url # urls, r)))"

definition cacheBust :: "nat \<Rightarrow> string \<Rightarrow> string" where
  "cacheBust dateNow targetUrl =
     (if includesStr targetUrl ''?''
      then targetUrl @ ''&_t='' @ numberToString dateNow
      else targetUrl @ ''?_t='' @ numberToString dateNow)"

text \<open>\<open>fetchWithProxy\<close> over a list of relays; the source runs it on \<open>PROXIES\<close>.\<close>

definition fetchWithProxyVia ::
  "string list \<Rightarrow> (string \<Rightarrow> FetchOutcome) \<Rightarrow> (string \<Rightarrow> string) \<Rightarrow> nat \<Rightarrow> string
     \<Rightarrow> string list \<times> (error + Response)" where
  "fetchWithProxyVia proxies fetch encodeURIComponent dateNow targetUrl =
     (let urlWithCacheBust = cacheBust dateNow targetUrl;
          encodedTarget = encodeURIComponent urlWithCacheBust
      in tryProxies fetch encodedTarget proxies None)"

definition fetchWithProxy ::
  "(string \<Rightarrow> FetchOutcome) \<Rightarrow> (string \<Rightarrow> string) \<Rightarrow> nat \<Rightarrow> string
     \<Rightarrow> string list \<times> (error + Response)" where
  "fetchWithProxy = fetchWithProxyVia PROXIES"

text \<open>The vocabulary of the relay contract.\<close>

definition succeeds :: "FetchOutcome \<Rightarrow> bool" where
  "succeeds out = (case out of Resolved r \<Rightarrow> ok r | Rejected e \<Rightarrow> False)"

definition observedError :: "FetchOutcome \<Rightarrow> error" where
  "observedError out =
     (case out of
        Resolved r \<Rightarrow> Error (''Proxy returned status '' @ numberToString (httpStatus r))
      | Rejected e \<Rightarrow> e)"

definition genericRelayError :: error where
  "genericRelayError =
     Error ''All proxies failed. Check your internet connection or try disabling ad-blockers.''"

section \<open>Data model\<close>

datatype BlogStatus = Active | Inactive | Unreachable

text \<open>
  \<open>BlogPost\<close>; its \<open>title\<close> and \<open>tags\<close> are the fields \<open>postTitle\<close> and \<open>postTags\<close>
  here, since \<open>BlogMetadata\<close> has fields of the same names. \<open>pubDate\<close> is
  \<open>entry.published?.$t\<close>: it is \<open>undefined\<close>, here \<open>None\<close>, for an entry without one.
\<close>

record 'n BlogPost =
  postTitle :: string
  link :: string
  pubDate :: "string option"
  guid :: string
  snippet :: string
  wordCount :: 'n
  imageCount :: 'n
  commentCount :: 'n
  postTags :: "string list"

record 'n BlogStats =
  totalPosts :: 'n
  totalPages :: 'n
  totalComments :: 'n
  avgCommentsPerPost :: 'n
  avgWordsPerPost :: 'n
  avgWordsPerPage :: 'n
  avgImagesPerPost :: 'n
  avgDaysBetweenPosts :: 'n
  consistencyScore :: 'n
  followersCount :: 'n
  firstPostDate :: string
  lastPostDate :: string

text \<open>\<open>BlogMetadata\<close>; its \<open>id\<close> is the field \<open>blogId\<close> here.\<close>

record 'n BlogMetadata =
  blogId :: string
  url :: string
  feedUrl :: string
  title :: string
  description :: string
  lastBuildDate :: string
  category :: string
  tags :: "string list"
  status :: BlogStatus
  isFavorite :: bool
  sentimentScore :: 'n
  qualityScore :: 'n
  language :: string
  addedAt :: string
  lastCheckedAt :: string
  posts :: "'n BlogPost list"
  stats :: "'n BlogStats"

record 'n ClassificationResult =
  crCategory :: string
  crTags :: "string list"
  crSentimentScore :: 'n
  crLanguage :: string
  crSummary :: string

text \<open>
  What a successful \<open>analyzeBlogAndFetch\<close> returns: the eight fields of
  \<open>Partial<BlogMetadata>\<close> that it sets.
\<close>

record 'n AnalysisData =
  aTitle :: string
  aDescription :: string
  aLastBuildDate :: string
  aPosts :: "'n BlogPost list"
  aStatus :: BlogStatus
  aStats :: "'n BlogStats"
  aQualityScore :: 'n
  aTags :: "string list"

section \<open>Scoring\<close>

text \<open>
  \<open>calculateConsistencyScore\<close>. \<open>dates\<close> are \<open>Date\<close> objects (\<open>None\<close> is Invalid Date,
  whose \<open>getTime()\<close> is NaN) and \<open>now\<close> is \<open>new Date().getTime()\<close>. \<open>x > c\<close> is
  \<open>numLess A c x\<close>.
\<close>

definition calculateConsistencyScore :: "'n Arith \<Rightarrow> int \<Rightarrow> int option list \<Rightarrow> 'n" where
  "calculateConsistencyScore A now dates =
     (if length dates < 3 then numLit A 50
      else
        let gaps = map (\<lambda>i. let diffTime = mathAbs A (numSub A (numOfInt A (dates ! i))
                                                           (numOfInt A (dates ! (i + 1))));
                                 diffDays = numDiv A diffTime (msPerDay A)
                             in diffDays)
                       [0 ..< length dates - 1]
        in if length gaps = 0 then numLit A 0
           else
             let mean = numDiv A (foldl (\<lambda>a b. numAdd A a b) (numLit A 0) gaps)
                          (numLit A (real (length gaps)));
                 variance = numDiv A
                              (foldl (\<lambda>a b. numAdd A a (mathPow A (numSub A b mean) (numLit A 2)))
                                 (numLit A 0) gaps)
                              (numLit A (real (length gaps)));
                 stdDev = mathSqrt A variance;
                 cv = (if numStrictEq A mean (numLit A 0) then numLit A 0 else numDiv A stdDev mean);
                 score = numSub A (numLit A 100) (numMul A cv (numLit A 66));
                 daysSinceLastPost =
                   numDiv A (numSub A (numLit A (real_of_int now)) (numOfInt A (dates ! 0)))
                     (msPerDay A);
                 score1 = (if numLess A (numLit A 90) daysSinceLastPost
                           then numSub A score (numLit A 20) else score);
                 score2 = (if numLess A (numLit A 365) daysSinceLastPost
                           then numSub A score1 (numLit A 40) else score1)
             in mathMax A (numLit A 0) (mathMin A (numLit A 100) (mathRound A score2)))"

text \<open>
  \<open>calculateQualityScore\<close>; \<open>parseDate\<close> is \<open>new Date(string)\<close> and \<open>now\<close> is
  \<open>new Date().getTime()\<close>.
\<close>

definition calculateQualityScore ::
  "'n Arith \<Rightarrow> (string \<Rightarrow> int option) \<Rightarrow> int \<Rightarrow> 'n BlogStats \<Rightarrow> 'n" where
  "calculateQualityScore A parseDate now bs =
     (let score0 = numLit A 0;
          avgWordsScore =
            mathMin A (numLit A 100)
              (numMul A (numDiv A (avgWordsPerPost bs) (numLit A 800)) (numLit A 100));
          avgImgScore =
            mathMin A (numLit A 100)
              (numMul A (numDiv A (avgImagesPerPost bs) (numLit A 3)) (numLit A 100));
          score1 = numAdd A score0
                     (numAdd A (numMul A avgWordsScore (numLit A 0.15))
                               (numMul A avgImgScore (numLit A 0.10)));
          totalPostScore =
            mathMin A (numLit A 100)
              (numMul A (numDiv A (totalPosts bs) (numLit A 100)) (numLit A 100));
          consistency = consistencyScore bs;
          score2 = numAdd A score1
                     (numAdd A (numMul A totalPostScore (numLit A 0.10))
                               (numMul A consistency (numLit A 0.15)));
          commentScore = mathMin A (numLit A 100) (numMul A (avgCommentsPerPost bs) (numLit A 10));
          followerScore =
            (if numLess A (numLit A 0) (followersCount bs)
             then mathMin A (numLit A 100) (numMul A (mathLog10 A (followersCount bs)) (numLit A 25))
             else numLit A 0);
          score3 =
            (if numStrictEq A (followersCount bs) (numLit A 0)
             then numAdd A score2 (numMul A commentScore (numLit A 0.30))
             else numAdd A score2
                    (numAdd A (numMul A commentScore (numLit A 0.20))
                              (numMul A followerScore (numLit A 0.10))));
          first = parseDate (firstPostDate bs);
          yearsActive =
            numDiv A (numSub A (numLit A (real_of_int now)) (numOfInt A first)) (msPerYear A);
          longevityScore = mathMin A (numLit A 100) (numMul A yearsActive (numLit A 20));
          pagesScore = mathMin A (numLit A 100) (numMul A (totalPages bs) (numLit A 20));
          score4 = numAdd A score3
                     (numAdd A (numMul A longevityScore (numLit A 0.10))
                               (numMul A pagesScore (numLit A 0.10)))
      in mathRound A score4)"

section \<open>Analysis orchestrator\<close>

datatype FeedType = Posts | Pages

text \<open>
  The \<open>feed\<close> object of a Blogger JSON feed, over a type \<open>'e\<close> of entries:
  \<open>title.$t\<close>, \<open>subtitle.$t\<close>, \<open>openSearch$totalResults.$t\<close> and \<open>entry\<close>; \<open>None\<close> is an
  absent field.
\<close>

record 'e Feed =
  feedTitle :: "string option"
  feedSubtitle :: "string option"
  totalResults :: "string option"
  entry :: "'e list option"

text \<open>
  What the orchestrator reads from outside itself:
  \<^item> \<open>e_arith\<close>: the arithmetic of the runtime;
  \<^item> \<open>e_now\<close>: the clock, \<open>new Date().getTime()\<close>, one reading for the run;
  \<^item> \<open>e_sixMonthsAgo\<close>: the clock after \<open>setMonth(getMonth() - 6)\<close>;
  \<^item> \<open>e_parseDate\<close>: \<open>new Date(string)\<close>, \<open>None\<close> when the string is not a date;
    \<open>e_toISOString\<close>: \<open>toISOString()\<close> of a valid date;
  \<^item> \<open>e_fetchJsonFeed baseUrl type maxResults startIndex\<close>: the outcome of that
    request, an error or the \<open>feed\<close> of the parsed body (\<open>None\<close> when the body has none);
  \<^item> \<open>e_fetchHtml\<close>: the markup of the page, the empty string when the fetch fails;
  \<^item> \<open>e_processEntry\<close>: the post a feed entry is mapped to (the callback of
    \<open>entries.map\<close>, with its regular expressions);
  \<^item> \<open>e_published\<close>: \<open>entry.published?.$t\<close>;
  \<^item> \<open>e_pageWords\<close>: \<open>countWords\<close> of the content of a page entry;
  \<^item> \<open>e_scrapeFollowers\<close>: the follower count matched in the markup.
\<close>

record ('e, 'n) Env =
  e_arith :: "'n Arith"
  e_now :: int
  e_sixMonthsAgo :: int
  e_parseDate :: "string \<Rightarrow> int option"
  e_toISOString :: "int \<Rightarrow> string"
  e_fetchJsonFeed :: "string \<Rightarrow> FeedType \<Rightarrow> int \<Rightarrow> int \<Rightarrow> error + 'e Feed option"
  e_fetchHtml :: "string \<Rightarrow> string"
  e_processEntry :: "'e \<Rightarrow> 'n BlogPost"
  e_published :: "'e \<Rightarrow> string option"
  e_pageWords :: "'e \<Rightarrow> 'n"
  e_scrapeFollowers :: "string \<Rightarrow> 'n"

text \<open>The requests of one run, in the order they are issued.\<close>

datatype Request = FeedRequest string FeedType int int | HtmlRequest string

definition MAX_RECENT_POSTS :: nat where
  "MAX_RECENT_POSTS = 5"

text \<open>\<open>x || d\<close> on an optional string: absent and empty are both falsy.\<close>

definition orElse :: "string option \<Rightarrow> string \<Rightarrow> string" where
  "orElse x d = (case x of None \<Rightarrow> d | Some s \<Rightarrow> if s = [] then d else s)"

text \<open>\<open>parseInt(feed.openSearch$totalResults?.$t || "0", 10)\<close> and \<open>feed.entry || []\<close>.\<close>

definition reportedTotal :: "'e Feed \<Rightarrow> int option" where
  "reportedTotal feed = parseInt (orElse (totalResults feed) ''0'')"

definition entriesOf :: "'e Feed \<Rightarrow> 'e list" where
  "entriesOf feed = (case entry feed of None \<Rightarrow> [] | Some es \<Rightarrow> es)"

text \<open>The helper \<open>parseDate\<close>, applied to a string that may be \<open>undefined\<close>.\<close>

definition parseDate :: "('e, 'n) Env \<Rightarrow> string option \<Rightarrow> int option" where
  "parseDate env dateStr = (case dateStr of None \<Rightarrow> None | Some s \<Rightarrow> e_parseDate env s)"

text \<open>
  \<open>toISOString()\<close> throws a \<open>RangeError\<close> on an Invalid Date (its message is the one
  of V8; the \<open>catch\<close> that meets it looks for other words).
\<close>

definition rangeError :: error where
  "rangeError = Error ''Invalid time value''"

definition toISOString :: "('e, 'n) Env \<Rightarrow> int option \<Rightarrow> error + string" where
  "toISOString env d = (case d of None \<Rightarrow> Inl rangeError | Some t \<Rightarrow> Inr (e_toISOString env t))"

text \<open>The outer \<open>catch\<close> of \<open>analyzeBlogAndFetch\<close>.\<close>

definition friendlyError :: "error \<Rightarrow> error" where
  "friendlyError err =
     (let msg = toLowerCase (message err)
      in if includesStr msg ''failed to fetch'' \<or> includesStr msg ''network error''
         then Error ''Network Error: Could not connect to the blog. Please try: 1. Disabling ad-blockers (they block proxies). 2. Verifying the URL.''
         else err)"

text \<open>
  The optional fetch of the oldest post: the requests it issues and \<open>creationDateStr\<close>.
  \<open>totalPosts > 0\<close> is false of NaN. A rejected request, and a body with no feed
  (reading \<open>entry\<close> of \<open>undefined\<close> throws), are caught: no date.
\<close>

definition fetchHistory ::
  "('e, 'n) Env \<Rightarrow> string \<Rightarrow> int option \<Rightarrow> Request list \<times> string option" where
  "fetchHistory env cleanUrl totalPostsN =
     (case totalPostsN of
        None \<Rightarrow> ([], None)
      | Some n \<Rightarrow>
          if n > 0 then
            (let safeTotal = min n 500
             in if safeTotal > 1 then
                  ([FeedRequest cleanUrl Posts 1 safeTotal],
                   (case e_fetchJsonFeed env cleanUrl Posts 1 safeTotal of
                      Inl err \<Rightarrow> None
                    | Inr None \<Rightarrow> None
                    | Inr (Some historyFeed) \<Rightarrow>
                        (case entry historyFeed of
                           None \<Rightarrow> None
                         | Some [] \<Rightarrow> None
                         | Some (oldest # others) \<Rightarrow> e_published env oldest)))
                else ([], None))
          else ([], None))"

text \<open>
  Steps 3 to 8 of \<open>analyzeBlogAndFetch\<close>, from the feeds and the markup to the
  returned object, in four definitions: the dates \<open>lastPostDate\<close> and \<open>firstPostDate\<close>,
  the object \<open>stats\<close>, the returned object, and the step that joins them.
\<close>

definition lastPostDateOf :: "('e, 'n) Env \<Rightarrow> 'n BlogPost list \<Rightarrow> int option" where
  "lastPostDateOf env processedPosts =
     (let postDates = map (\<lambda>p. parseDate env (pubDate p)) processedPosts
      in if length postDates > 0 then postDates ! 0 else Some (e_now env))"

definition firstPostDateOf ::
  "('e, 'n) Env \<Rightarrow> 'n BlogPost list \<Rightarrow> string option \<Rightarrow> int option" where
  "firstPostDateOf env processedPosts creationDateStr =
     (let postDates = map (\<lambda>p. parseDate env (pubDate p)) processedPosts;
          oldestLocal =
            (if length postDates > 0 then postDates ! (length postDates - 1) else Some (e_now env))
      in case creationDateStr of
           None \<Rightarrow> oldestLocal
         | Some s \<Rightarrow> if s \<noteq> [] then parseDate env (Some s) else oldestLocal)"

text \<open>
  The object \<open>stats\<close>, given the two strings that \<open>firstPostDate.toISOString()\<close> and
  \<open>lastPostDate.toISOString()\<close> returned.
\<close>

definition statsOf ::
  "('e, 'n) Env \<Rightarrow> 'e Feed \<Rightarrow> string \<Rightarrow> 'e Feed option \<Rightarrow> string \<Rightarrow> string \<Rightarrow> 'n BlogStats" where
  "statsOf env postsFeed htmlContent pagesFeed firstIso lastIso =
     (let A = e_arith env;
          totalPostsN = reportedTotal postsFeed;
          totalPagesN = (case pagesFeed of None \<Rightarrow> parseInt ''0'' | Some pf \<Rightarrow> reportedTotal pf);
          entries = entriesOf postsFeed;
          processedPosts = map (e_processEntry env) entries;
          pageEntries = (case pagesFeed of None \<Rightarrow> [] | Some pf \<Rightarrow> entriesOf pf);
          totalPageWords = foldl (\<lambda>sum e. numAdd A sum (e_pageWords env e)) (numLit A 0) pageEntries;
          avgWordsPerPageV =
            (if length pageEntries > 0
             then mathRound A (numDiv A totalPageWords (numLit A (real (length pageEntries))))
             else numLit A 0);
          totalWords = foldl (\<lambda>sum p. numAdd A sum (wordCount p)) (numLit A 0) processedPosts;
          totalImages = foldl (\<lambda>sum p. numAdd A sum (imageCount p)) (numLit A 0) processedPosts;
          totalCommentsN = foldl (\<lambda>sum p. numAdd A sum (commentCount p)) (numLit A 0) processedPosts;
          n = length processedPosts;
          postDates = map (\<lambda>p. parseDate env (pubDate p)) processedPosts;
          consistencyScoreV = calculateConsistencyScore A (e_now env) postDates;
          avgDaysBetweenPostsV =
            (if length postDates > 1
             then numDiv A
                    (numDiv A (numSub A (numOfInt A (postDates ! 0))
                                        (numOfInt A (postDates ! (length postDates - 1))))
                              (numLit A (real (length postDates - 1))))
                    (msPerDay A)
             else numLit A 0);
          followersCountV = e_scrapeFollowers env htmlContent
      in \<lparr> totalPosts = numOfInt A totalPostsN,
           totalPages = numOfInt A totalPagesN,
           totalComments =
             (if (case totalPostsN of None \<Rightarrow> False | Some t \<Rightarrow> t > int n) \<and> n > 0
              then mathRound A
                     (numMul A (numDiv A totalCommentsN (numLit A (real n))) (numOfInt A totalPostsN))
              else totalCommentsN),
           avgCommentsPerPost =
             (if n \<noteq> 0
              then numDiv A
                     (mathRound A
                        (numMul A (numDiv A totalCommentsN (numLit A (real n))) (numLit A 10)))
                     (numLit A 10)
              else numLit A 0),
           avgWordsPerPost =
             (if n \<noteq> 0 then mathRound A (numDiv A totalWords (numLit A (real n)))
              else numLit A 0),
           avgWordsPerPage = avgWordsPerPageV,
           avgImagesPerPost =
             (if n \<noteq> 0
              then numDiv A
                     (mathRound A
                        (numMul A (numDiv A totalImages (numLit A (real n))) (numLit A 10)))
                     (numLit A 10)
              else numLit A 0),
           avgDaysBetweenPosts =
             numDiv A (mathRound A (numMul A avgDaysBetweenPostsV (numLit A 10))) (numLit A 10),
           consistencyScore = consistencyScoreV,
           followersCount = followersCountV,
           firstPostDate = firstIso,
           lastPostDate = lastIso \<rparr>)"

text \<open>
  The returned object, once \<open>stats\<close> is built. \<open>lastPostDate < sixMonthsAgo\<close> is false
  of an Invalid Date.
\<close>

definition snapshotOf ::
  "('e, 'n) Env \<Rightarrow> 'e Feed \<Rightarrow> 'n BlogStats \<Rightarrow> string \<Rightarrow> 'n AnalysisData" where
  "snapshotOf env postsFeed statsV lastIso =
     (let titleV = orElse (feedTitle postsFeed) ''Untitled Blog'';
          descriptionV = orElse (feedSubtitle postsFeed) '''';
          processedPosts = map (e_processEntry env) (entriesOf postsFeed);
          qualityScoreV = calculateQualityScore (e_arith env) (e_parseDate env) (e_now env) statsV;
          statusV =
            (if (case lastPostDateOf env processedPosts of
                   None \<Rightarrow> False
                 | Some t \<Rightarrow> t < e_sixMonthsAgo env)
             then Inactive else Active);
          allTags = foldl (\<lambda>s p. foldl setAdd s (postTags p)) [] processedPosts
      in \<lparr> aTitle = titleV,
           aDescription = descriptionV,
           aLastBuildDate = lastIso,
           aPosts = take MAX_RECENT_POSTS processedPosts,
           aStatus = statusV,
           aStats = statsV,
           aQualityScore = qualityScoreV,
           aTags = take 15 allTags \<rparr>)"

text \<open>
  Building \<open>stats\<close> calls \<open>firstPostDate.toISOString()\<close> and then
  \<open>lastPostDate.toISOString()\<close>: either throws on an Invalid Date, before the quality
  score, the status and the tags are computed.
\<close>

definition assemble ::
  "('e, 'n) Env \<Rightarrow> 'e Feed \<Rightarrow> string \<Rightarrow> 'e Feed option \<Rightarrow> string option
     \<Rightarrow> error + 'n AnalysisData" where
  "assemble env postsFeed htmlContent pagesFeed creationDateStr =
     (let processedPosts = map (e_processEntry env) (entriesOf postsFeed);
          lastPostDateV = lastPostDateOf env processedPosts;
          firstPostDateV = firstPostDateOf env processedPosts creationDateStr
      in case toISOString env firstPostDateV of
           Inl err \<Rightarrow> Inl err
         | Inr firstIso \<Rightarrow>
             (case toISOString env lastPostDateV of
                Inl err \<Rightarrow> Inl err
              | Inr lastIso \<Rightarrow>
                  Inr (snapshotOf env postsFeed
                         (statsOf env postsFeed htmlContent pagesFeed firstIso lastIso) lastIso)))"

text \<open>
  \<open>analyzeBlogAndFetch\<close>: the requests issued, and the error thrown or the object
  returned. Every error passes through the outer \<open>catch\<close>.
\<close>

definition analyzeBlogAndFetch ::
  "('e, 'n) Env \<Rightarrow> string \<Rightarrow> Request list \<times> (error + 'n AnalysisData)" where
  "analyzeBlogAndFetch env blogUrl =
     (let cleanUrl = normalizeUrl blogUrl
      in case e_fetchJsonFeed env cleanUrl Posts 25 1 of
           Inl err \<Rightarrow> ([FeedRequest cleanUrl Posts 25 1], Inl (friendlyError err))
         | Inr None \<Rightarrow>
             ([FeedRequest cleanUrl Posts 25 1],
              Inl (friendlyError
                     (Error ''No feed data returned. The URL might not be a valid Blogspot blog.'')))
         | Inr (Some postsFeed) \<Rightarrow>
             (let totalPostsN = reportedTotal postsFeed;
                  htmlContent = e_fetchHtml env cleanUrl;
                  pagesFeed = (case e_fetchJsonFeed env cleanUrl Pages 10 1 of
                                 Inl err \<Rightarrow> None
                               | Inr f \<Rightarrow> f);
                  (historyRequests, creationDateStr) = fetchHistory env cleanUrl totalPostsN
              in ([FeedRequest cleanUrl Posts 25 1, HtmlRequest cleanUrl,
                   FeedRequest cleanUrl Pages 10 1] @ historyRequests,
                  (case assemble env postsFeed htmlContent pagesFeed creationDateStr of
                     Inl err \<Rightarrow> Inl (friendlyError err)
                   | Inr analysisData \<Rightarrow> Inr analysisData))))"



definition oldestLocalDate :: "('e, 'n) Env \<Rightarrow> 'e Feed \<Rightarrow> int option" where
  "oldestLocalDate env postsFeed =
     (if entriesOf postsFeed = [] then Some (e_now env)
      else parseDate env (pubDate (e_processEntry env (last (entriesOf postsFeed)))))"

section \<open>Collection handlers\<close>

datatype ViewState = Dashboard | Directory | Favorites | AddView

record 'n AppState =
  blogs :: "'n BlogMetadata list"
  view :: ViewState
  newBlogUrl :: string
  isAdding :: bool
  addError :: string
  currentAction :: string

text \<open>The \<open>catch\<close> and \<open>finally\<close> of \<open>handleAddBlog\<close>.\<close>

definition addFailed :: "'n AppState \<Rightarrow> error \<Rightarrow> 'n AppState" where
  "addFailed st err =
     st\<lparr> addError := (if message err = [] then ''Failed to add blog'' else message err),
         isAdding := False, currentAction := '''' \<rparr>"

text \<open>
  \<open>handleAddBlog\<close>. \<open>analyze\<close> is the result of \<open>analyzeBlogAndFetch\<close>, \<open>classify\<close> is
  \<open>classifyBlogWithGemini\<close> (it catches its own failures), \<open>uuid\<close> is
  \<open>crypto.randomUUID()\<close> and \<open>nowIso\<close> is \<open>new Date().toISOString()\<close>.
\<close>

definition handleAddBlog ::
  "(string \<Rightarrow> error + 'n AnalysisData)
     \<Rightarrow> (string \<Rightarrow> string \<Rightarrow> 'n BlogPost list \<Rightarrow> 'n ClassificationResult)
     \<Rightarrow> string \<Rightarrow> string \<Rightarrow> 'n AppState \<Rightarrow> 'n AppState" where
  "handleAddBlog analyze classify uuid nowIso st =
     (if newBlogUrl st = [] then st
      else
        let cleanUrl = normalizeUrl (newBlogUrl st)
        in if list_ex (\<lambda>b. url b = cleanUrl) (blogs st)
           then addFailed st (Error ''Blog already exists in your library.'')
           else
             (case analyze cleanUrl of
                Inl err \<Rightarrow> addFailed st err
              | Inr analysisData \<Rightarrow>
                  if aTitle analysisData = [] then addFailed st (Error ''Could not parse blog data.'')
                  else
                    let classification =
                          classify (aTitle analysisData) (aDescription analysisData) (aPosts analysisData);
                        combinedTags = newSet (aTags analysisData @ crTags classification);
                        newBlog = \<lparr>
                          blogId = uuid,
                          url = cleanUrl,
                          feedUrl = cleanUrl @ ''/feeds/posts/default?alt=json'',
                          title = aTitle analysisData,
                          description = aDescription analysisData,
                          lastBuildDate = aLastBuildDate analysisData,
                          category = crCategory classification,
                          tags = combinedTags,
                          status = aStatus analysisData,
                          isFavorite = False,
                          sentimentScore = crSentimentScore classification,
                          qualityScore = aQualityScore analysisData,
                          language = crLanguage classification,
                          addedAt = nowIso,
                          lastCheckedAt = nowIso,
                          posts = aPosts analysisData,
                          stats = aStats analysisData \<rparr>
                    in st\<lparr> blogs := newBlog # blogs st, newBlogUrl := '''', view := Directory,
                           addError := '''', isAdding := False, currentAction := '''' \<rparr>))"

text \<open>
  \<open>handleRefreshBlog\<close>: no blog of that id, nothing happens; a failed analysis is
  logged and no state is set; otherwise every record of that id is rebuilt.
\<close>

definition refreshed ::
  "'n AnalysisData \<Rightarrow> string \<Rightarrow> 'n BlogMetadata \<Rightarrow> 'n BlogMetadata" where
  "refreshed analysisData nowIso b =
     b\<lparr> title := aTitle analysisData,
        description := aDescription analysisData,
        lastBuildDate := aLastBuildDate analysisData,
        posts := aPosts analysisData,
        status := aStatus analysisData,
        stats := aStats analysisData,
        qualityScore := aQualityScore analysisData,
        tags := newSet (tags b @ aTags analysisData),
        lastCheckedAt := nowIso \<rparr>"

definition handleRefreshBlog ::
  "(string \<Rightarrow> error + 'n AnalysisData) \<Rightarrow> string \<Rightarrow> 'n AppState \<Rightarrow> string \<Rightarrow> 'n AppState" where
  "handleRefreshBlog analyze nowIso st ident =
     (case find (\<lambda>b. blogId b = ident) (blogs st) of
        None \<Rightarrow> st
      | Some blog \<Rightarrow>
          (case analyze (url blog) of
             Inl err \<Rightarrow> st
           | Inr analysisData \<Rightarrow>
               st\<lparr> blogs := map (\<lambda>b. if blogId b = ident then refreshed analysisData nowIso b else b)
                                (blogs st) \<rparr>))"

section \<open>Concrete inputs\<close>

text \<open>
  An arithmetic to run the definitions on: the exact arithmetic of the reals, with a
  NaN that every operation propagates and that a division by zero, a square root
  or a logarithm outside its domain yields. It agrees with the doubles wherever
  the doubles are exact.
\<close>

definition lift2 ::
  "(real \<Rightarrow> real \<Rightarrow> real) \<Rightarrow> real option \<Rightarrow> real option \<Rightarrow> real option" where
  "lift2 f a b =
     (case a of None \<Rightarrow> None
      | Some x \<Rightarrow> (case b of None \<Rightarrow> None | Some y \<Rightarrow> Some (f x y)))"

definition idealArith :: "real option Arith" where
  "idealArith = \<lparr>
     numLit = Some,
     numNaN = None,
     numAdd = lift2 (\<lambda>x y. x + y),
     numSub = lift2 (\<lambda>x y. x - y),
     numMul = lift2 (\<lambda>x y. x * y),
     numDiv = (\<lambda>a b. if b = Some 0 then None else lift2 (\<lambda>x y. x / y) a b),
     numLess = (\<lambda>a b. case a of None \<Rightarrow> False
                           | Some x \<Rightarrow> (case b of None \<Rightarrow> False | Some y \<Rightarrow> x < y)),
     numStrictEq = (\<lambda>a b. case a of None \<Rightarrow> False | Some x \<Rightarrow> b = Some x),
     mathMin = lift2 min,
     mathMax = lift2 max,
     mathAbs = map_option abs,
     mathSqrt = (\<lambda>a. case a of None \<Rightarrow> None
                         | Some x \<Rightarrow> if x < 0 then None else Some (sqrt x)),
     mathPow = (\<lambda>a b. if b = Some 2 then lift2 (\<lambda>x y. x * x) a b
                       else lift2 (\<lambda>x y. x powr y) a b),
     mathLog10 = (\<lambda>a. case a of None \<Rightarrow> None
                          | Some x \<Rightarrow> if x \<le> 0 then None else Some (log 10 x)),
     mathRound = map_option (\<lambda>x. real_of_int (round x)) \<rparr>"

text \<open>
  A date parser that knows three timestamps, and statistics in which every number
  is 0 and the first post lies ten years after the clock reading 1700000000000.
\<close>

definition exampleParseDate :: "string \<Rightarrow> int option" where
  "exampleParseDate s =
     (if s = ''2033-11-11T22:13:20.000Z'' then Some 2015360000000
      else if s = ''2023-11-04T22:13:20.000Z'' then Some 1699136000000
      else if s = ''2023-10-25T22:13:20.000Z'' then Some 1698272000000
      else None)"

definition futureStats :: "real option BlogStats" where
  "futureStats = \<lparr>
     totalPosts = Some 0, totalPages = Some 0, totalComments = Some 0,
     avgCommentsPerPost = Some 0, avgWordsPerPost = Some 0, avgWordsPerPage = Some 0,
     avgImagesPerPost = Some 0, avgDaysBetweenPosts = Some 0,
     consistencyScore = Some 0, followersCount = Some 0,
     firstPostDate = ''2033-11-11T22:13:20.000Z'',
     lastPostDate = ''2033-11-11T22:13:20.000Z'' \<rparr>"

text \<open>
  Two networks. In the first the first relay rejects, the second answers 500 and
  the third answers 200. In the second no relay succeeds, and the last one
  answers 429.
\<close>

definition okResponse :: Response where
  "okResponse = \<lparr> ok = True, httpStatus = 200, body = ''{}'' \<rparr>"

definition exampleFetch :: "string \<Rightarrow> FetchOutcome" where
  "exampleFetch u =
     (if startsWith u ''https://corsproxy.io/?'' then Rejected (Error ''Failed to fetch'')
      else if startsWith u ''https://api.allorigins.win/raw?url=''
        then Resolved \<lparr> ok = False, httpStatus = 500, body = '''' \<rparr>
      else if startsWith u ''https://api.codetabs.com/v1/proxy?quest='' then Resolved okResponse
      else Rejected (Error ''The operation was aborted.''))"

definition failingFetch :: "string \<Rightarrow> FetchOutcome" where
  "failingFetch u =
     (if startsWith u ''https://cors-anywhere.herokuapp.com/''
        then Resolved \<lparr> ok = False, httpStatus = 429, body = '''' \<rparr>
      else Rejected (Error ''Failed to fetch''))"

text \<open>\<open>encodeURIComponent\<close> on the characters of a feed address.\<close>

definition exampleEncode :: "string \<Rightarrow> string" where
  "exampleEncode s =
     concat (map (\<lambda>c. if c = CHR '':'' then ''%3A'' else if c = CHR ''/'' then ''%2F''
                       else if c = CHR ''?'' then ''%3F'' else if c = CHR ''='' then ''%3D''
                       else if c = CHR ''&'' then ''%26'' else [c]) s)"


text \<open>
  A blog server: the posts feed answers with the requested window of its entries
  (\<open>start-index\<close> counts from 1), the pages feed is empty, the page markup is empty
  and names no follower count. Entries are posts already, the clock reads
  1700000000000 (14 November 2023) and six months earlier is 1684102400000.
\<close>

definition mkPost :: "string \<Rightarrow> string option \<Rightarrow> string list \<Rightarrow> real option BlogPost" where
  "mkPost t d ts = \<lparr>
     postTitle = t, link = '''', pubDate = d, guid = t, snippet = ''...'',
     wordCount = Some 500, imageCount = Some 0, commentCount = Some 1, postTags = ts \<rparr>"

definition exampleToISO :: "int \<Rightarrow> string" where
  "exampleToISO t =
     (if t = 1699136000000 then ''2023-11-04T22:13:20.000Z''
      else if t = 1698272000000 then ''2023-10-25T22:13:20.000Z''
      else if t = 1700000000000 then ''2023-11-14T22:13:20.000Z''
      else ''1970-01-01T00:00:00.000Z'')"

definition emptyFeed :: "real option BlogPost Feed" where
  "emptyFeed = \<lparr> feedTitle = None, feedSubtitle = None, totalResults = Some ''0'', entry = None \<rparr>"

definition envWith :: "real option BlogPost Feed \<Rightarrow> (real option BlogPost, real option) Env" where
  "envWith postsFeed = \<lparr>
     e_arith = idealArith,
     e_now = 1700000000000,
     e_sixMonthsAgo = 1684102400000,
     e_parseDate = exampleParseDate,
     e_toISOString = exampleToISO,
     e_fetchJsonFeed = (\<lambda>baseUrl ty maxResults startIndex.
        if ty = Pages then Inr (Some emptyFeed)
        else Inr (Some (postsFeed\<lparr> entry :=
               Some (take (nat maxResults) (drop (nat (startIndex - 1)) (entriesOf postsFeed))) \<rparr>))),
     e_fetchHtml = (\<lambda>baseUrl. ''''),
     e_processEntry = (\<lambda>p. p),
     e_published = pubDate,
     e_pageWords = wordCount,
     e_scrapeFollowers = (\<lambda>html. Some 0) \<rparr>"

text \<open>A server that no relay reaches.\<close>

definition downEnv :: "(real option BlogPost, real option) Env" where
  "downEnv = (envWith emptyFeed)\<lparr>
     e_fetchJsonFeed := (\<lambda>baseUrl ty maxResults startIndex. Inl (Error ''Failed to fetch'')) \<rparr>"

text \<open>
  Feeds of two posts, of one post, of one post without a date, of six posts, and
  of one post with 15 tags.
\<close>

definition twoPostFeed :: "real option BlogPost Feed" where
  "twoPostFeed = \<lparr>
     feedTitle = Some ''Example Blog'', feedSubtitle = Some ''Notes'',
     totalResults = Some ''2'',
     entry = Some [mkPost ''Second'' (Some ''2023-11-04T22:13:20.000Z'') [''go'', ''web''],
                   mkPost ''First'' (Some ''2023-10-25T22:13:20.000Z'') [''web'']] \<rparr>"

definition onePostFeed :: "real option BlogPost Feed" where
  "onePostFeed = \<lparr>
     feedTitle = Some ''Example Blog'', feedSubtitle = Some ''Notes'',
     totalResults = Some ''1'',
     entry = Some [mkPost ''First'' (Some ''2023-10-25T22:13:20.000Z'') [''web'']] \<rparr>"


definition sixPostFeed :: "real option BlogPost Feed" where
  "sixPostFeed = \<lparr>
     feedTitle = Some ''Example Blog'', feedSubtitle = Some ''Notes'',
     totalResults = Some ''6'',
     entry = Some [mkPost ''P6'' (Some ''2023-11-04T22:13:20.000Z'') [],
                   mkPost ''P5'' (Some ''2023-11-04T22:13:20.000Z'') [],
                   mkPost ''P4'' (Some ''2023-11-04T22:13:20.000Z'') [],
                   mkPost ''P3'' (Some ''2023-10-25T22:13:20.000Z'') [],
                   mkPost ''P2'' (Some ''2023-10-25T22:13:20.000Z'') [],
                   mkPost ''P1'' (Some ''2023-10-25T22:13:20.000Z'') []] \<rparr>"

definition taggedFeed :: "real option BlogPost Feed" where
  "taggedFeed = \<lparr>
     feedTitle = Some ''Example Blog'', feedSubtitle = Some ''Notes'',
     totalResults = Some ''1'',
     entry = Some [mkPost ''First'' (Some ''2023-10-25T22:13:20.000Z'')
                     [''t01'', ''t02'', ''t03'', ''t04'', ''t05'', ''t06'', ''t07'', ''t08'',
                      ''t09'', ''t10'', ''t11'', ''t12'', ''t13'', ''t14'', ''t15'']] \<rparr>"

text \<open>A classifier, an empty library with an address typed in, and a library of two blogs.\<close>

definition exampleClassify ::
  "string \<Rightarrow> string \<Rightarrow> real option BlogPost list \<Rightarrow> real option ClassificationResult" where
  "exampleClassify t d ps = \<lparr>
     crCategory = ''Technology'', crTags = [''web'', ''tutorial''],
     crSentimentScore = Some 70, crLanguage = ''English'', crSummary = ''A blog.'' \<rparr>"

definition addingState :: "real option AppState" where
  "addingState = \<lparr>
     blogs = [], view = AddView, newBlogUrl = ''a.blogspot.com/'',
     isAdding = False, addError = '''', currentAction = '''' \<rparr>"

definition blogA :: "real option BlogMetadata" where
  "blogA = \<lparr>
     blogId = ''id-a'', url = ''https://a.blogspot.com'',
     feedUrl = ''https://a.blogspot.com/feeds/posts/default?alt=json'',
     title = ''Old title'', description = ''Old description'',
     lastBuildDate = ''2023-10-25T22:13:20.000Z'',
     category = ''Technology'', tags = [''web'', ''retro''], status = Inactive,
     isFavorite = True, sentimentScore = Some 70, qualityScore = Some 12, language = ''English'',
     addedAt = ''2023-10-25T22:13:20.000Z'', lastCheckedAt = ''2023-10-25T22:13:20.000Z'',
     posts = [], stats = futureStats \<rparr>"

definition blogB :: "real option BlogMetadata" where
  "blogB = blogA\<lparr> blogId := ''id-b'', url := ''https://b.blogspot.com'',
     feedUrl := ''https://b.blogspot.com/feeds/posts/default?alt=json'',
     category := ''Travel'', isFavorite := False \<rparr>"

definition libraryState :: "real option AppState" where
  "libraryState = \<lparr>
     blogs = [blogA, blogB], view = Directory, newBlogUrl = '''',
     isAdding = False, addError = '''', currentAction = '''' \<rparr>"

section \<open>Facts about the normalizer\<close>

lemma endsWith_slash: "endsWith s ''/'' \<longleftrightarrow> s \<noteq> [] \<and> last s = CHR ''/''"
proof (cases s rule: rev_cases)
  case Nil
  then show ?thesis by (simp add: endsWith_def)
next
  case (snoc ys y)
  then show ?thesis by (simp add: endsWith_def)
qed

lemma stripSlashes_snoc:
  "stripSlashes (ys @ [y]) = (if y = CHR ''/'' then stripSlashes ys else ys @ [y])"
  by (subst stripSlashes.simps) (simp add: endsWith_slash)

lemma stripSlashes_Nil: "stripSlashes [] = []"
  by (subst stripSlashes.simps) (simp add: endsWith_slash)

lemma removeTrailingSlashes_snoc:
  "removeTrailingSlashes (ys @ [y]) =
     (if y = CHR ''/'' then removeTrailingSlashes ys else ys @ [y])"
  unfolding removeTrailingSlashes_def by simp

lemma removeTrailingSlashes_Nil: "removeTrailingSlashes [] = []"
  unfolding removeTrailingSlashes_def by simp

text \<open>The loop removes exactly the trailing slashes.\<close>

lemma stripSlashes_removeTrailing: "stripSlashes s = removeTrailingSlashes s"
proof (induction s rule: rev_induct)
  case Nil
  show ?case by (simp only: stripSlashes_Nil removeTrailingSlashes_Nil)
next
  case (snoc x xs)
  show ?case by (simp only: stripSlashes_snoc removeTrailingSlashes_snoc snoc.IH)
qed

lemma startsWith_prefix: "startsWith s p \<longleftrightarrow> prefix p s"
  unfolding startsWith_def prefix_def
proof
  assume "take (length p) s = p"
  then have "s = p @ drop (length p) s" by (metis append_take_drop_id)
  then show "\<exists>zs. s = p @ zs" ..
next
  assume "\<exists>zs. s = p @ zs"
  then show "take (length p) s = p" by auto
qed

lemma normalizeUrl_eq_spec: "normalizeUrl x = normalizeBySteps x"
  by (simp add: normalizeUrl_def normalizeBySteps_def Let_def stripSlashes_removeTrailing
      startsWith_prefix)

lemma not_whitespace_h: "\<not> isWhiteSpace CHR ''h''"
  by (simp add: isWhiteSpace_def)

lemma not_whitespace_p: "\<not> isWhiteSpace CHR ''p''"
  by (simp add: isWhiteSpace_def)

text \<open>Dropping a run of characters from the end of a string.\<close>

lemma rstrip_keep:
  "\<not> P c \<Longrightarrow> rev (dropWhile P (rev (a @ c # b))) = a @ c # rev (dropWhile P (rev b))"
  by (simp add: dropWhile_append3)

lemma rstrip_length: "length (rev (dropWhile P (rev t))) \<le> length t"
  using length_dropWhile_le [of P "rev t"] by simp

lemma rstrip_id: "t = [] \<or> \<not> P (last t) \<Longrightarrow> rev (dropWhile P (rev t)) = t"
  by (cases t rule: rev_cases) auto

lemma rstrip_shorter:
  "t \<noteq> [] \<Longrightarrow> P (last t) \<Longrightarrow> length (rev (dropWhile P (rev t))) < length t"
proof (cases t rule: rev_cases)
  case Nil
  assume "t \<noteq> []"
  with Nil show ?thesis by simp
next
  case (snoc ys y)
  assume "P (last t)"
  with snoc have "P y" by simp
  with snoc have "rev (dropWhile P (rev t)) = rev (dropWhile P (rev ys))" by simp
  with rstrip_length [of P ys] snoc show ?thesis by simp
qed

lemma rstrip_last:
  "rev (dropWhile P (rev t)) \<noteq> [] \<Longrightarrow> \<not> P (last (rev (dropWhile P (rev t))))"
  by (metis hd_dropWhile last_rev rev_is_Nil_conv)

lemma normalizeBySteps_prefix: "prefix ''http'' (normalizeBySteps x)"
  by (simp add: normalizeBySteps_def Let_def)

lemma removeTrailing_last:
  "removeTrailingSlashes t \<noteq> [] \<Longrightarrow> last (removeTrailingSlashes t) \<noteq> CHR ''/''"
  unfolding removeTrailingSlashes_def using rstrip_last [of "\<lambda>c. c = CHR ''/''" t] by simp

lemma trim_keeps_http: "trim (''http'' @ b) = ''http'' @ rev (dropWhile isWhiteSpace (rev b))"
  unfolding trim_def using rstrip_keep [of isWhiteSpace "CHR ''p''" "''htt''" b]
  by (simp add: not_whitespace_h not_whitespace_p)

lemma removeTrailing_keeps_http:
  "removeTrailingSlashes (''http'' @ b) = ''http'' @ removeTrailingSlashes b"
  unfolding removeTrailingSlashes_def
  using rstrip_keep [of "\<lambda>c. c = CHR ''/''" "CHR ''p''" "''htt''" b] by simp

lemma removeTrailing_length: "length (removeTrailingSlashes t) \<le> length t"
  unfolding removeTrailingSlashes_def by (rule rstrip_length)

text \<open>A result is the bare scheme, or it is not empty and does not end in a slash.\<close>

lemma normalizeBySteps_shape:
  "normalizeBySteps x = ''https://'' \<or>
     (normalizeBySteps x \<noteq> [] \<and> last (normalizeBySteps x) \<noteq> CHR ''/'')"
proof -
  define s where "s = removeTrailingSlashes (trim x)"
  have r: "normalizeBySteps x = (if prefix ''http'' s then s else ''https://'' @ s)"
    by (simp add: normalizeBySteps_def s_def Let_def)
  have l: "s \<noteq> [] \<Longrightarrow> last s \<noteq> CHR ''/''"
    unfolding s_def by (rule removeTrailing_last)
  show ?thesis
  proof (cases "s = []")
    case True
    then show ?thesis by (simp add: r)
  next
    case False
    with l have "last s \<noteq> CHR ''/''" by simp
    with False show ?thesis by (simp add: r)
  qed
qed

lemma trim_http_id:
  assumes "prefix ''http'' t" and "\<not> isWhiteSpace (last t)"
  shows "trim t = t"
proof -
  from assms(1) obtain b where t: "t = ''http'' @ b" by (auto simp: prefix_def)
  have "dropWhile isWhiteSpace t = t" by (simp add: t not_whitespace_h)
  moreover have "rev (dropWhile isWhiteSpace (rev t)) = t"
    using assms(2) by (intro rstrip_id) simp
  ultimately show ?thesis by (simp add: trim_def)
qed

text \<open>A clean string that starts with the token is a fixed point.\<close>

lemma normalizeBySteps_fixed:
  assumes "prefix ''http'' t" and "last t \<noteq> CHR ''/''" and "\<not> isWhiteSpace (last t)"
  shows "normalizeBySteps t = t"
proof -
  have "trim t = t" using assms(1,3) by (rule trim_http_id)
  moreover have "removeTrailingSlashes t = t"
    unfolding removeTrailingSlashes_def using assms(2) by (intro rstrip_id) simp
  ultimately show ?thesis using assms(1) by (simp add: normalizeBySteps_def)
qed

text \<open>A string that starts with the token and ends in whitespace gets shorter.\<close>

lemma normalizeBySteps_shrinks:
  assumes "prefix ''http'' t" and "isWhiteSpace (last t)"
  shows "length (normalizeBySteps t) < length t"
proof -
  from assms(1) obtain b where t: "t = ''http'' @ b" by (auto simp: prefix_def)
  have tr: "trim t = ''http'' @ rev (dropWhile isWhiteSpace (rev b))"
    unfolding t by (rule trim_keeps_http)
  then have "prefix ''http'' (removeTrailingSlashes (trim t))"
    by (simp only: removeTrailing_keeps_http prefixI)
  then have n: "normalizeBySteps t = removeTrailingSlashes (trim t)"
    by (simp add: normalizeBySteps_def)
  have "dropWhile isWhiteSpace t = t" by (simp add: t not_whitespace_h)
  then have "trim t = rev (dropWhile isWhiteSpace (rev t))" by (simp add: trim_def)
  moreover have "t \<noteq> []" by (simp add: t)
  ultimately have "length (trim t) < length t"
    using rstrip_shorter [of t isWhiteSpace] assms(2) by simp
  with removeTrailing_length [of "trim t"] show ?thesis by (simp add: n)
qed

lemma normalizeBySteps_bare: "normalizeBySteps ''https://'' = ''https:''"
  by (simp add: normalizeBySteps_def trim_def isWhiteSpace_def removeTrailingSlashes_def)

lemma normalizeBySteps_twice:
  "normalizeBySteps (normalizeBySteps x) = normalizeBySteps x \<longleftrightarrow>
     normalizeBySteps x \<noteq> ''https://'' \<and> \<not> isWhiteSpace (last (normalizeBySteps x))"
proof
  assume fp: "normalizeBySteps (normalizeBySteps x) = normalizeBySteps x"
  have "normalizeBySteps x \<noteq> ''https://''"
  proof
    assume "normalizeBySteps x = ''https://''"
    with fp normalizeBySteps_bare show False by simp
  qed
  moreover have "\<not> isWhiteSpace (last (normalizeBySteps x))"
  proof
    assume "isWhiteSpace (last (normalizeBySteps x))"
    with normalizeBySteps_prefix [of x]
    have "length (normalizeBySteps (normalizeBySteps x)) < length (normalizeBySteps x)"
      by (rule normalizeBySteps_shrinks)
    with fp show False by simp
  qed
  ultimately show "normalizeBySteps x \<noteq> ''https://'' \<and> \<not> isWhiteSpace (last (normalizeBySteps x))" ..
next
  assume a: "normalizeBySteps x \<noteq> ''https://'' \<and> \<not> isWhiteSpace (last (normalizeBySteps x))"
  with normalizeBySteps_shape [of x] have "last (normalizeBySteps x) \<noteq> CHR ''/''" by blast
  with normalizeBySteps_prefix [of x] a show "normalizeBySteps (normalizeBySteps x) = normalizeBySteps x"
    by (intro normalizeBySteps_fixed) simp_all
qed



text \<open>
  C9 as stated, that \<open>normalizeUrl\<close> is idempotent on every string, fails: a space
  before the trailing slash survives the first pass (\<open>http://a /\<close> gives \<open>http://a \<close>)
  and is trimmed by the second (\<open>http://a\<close>).
\<close>

theorem normalizeUrl_not_idempotent:
  "normalizeUrl ''http://a /'' = ''http://a ''
   \<and> normalizeUrl (normalizeUrl ''http://a /'') = ''http://a''
   \<and> normalizeUrl (normalizeUrl ''http://a /'') \<noteq> normalizeUrl ''http://a /''"
  by (simp add: normalizeUrl_eq_spec normalizeBySteps_def trim_def isWhiteSpace_def
      removeTrailingSlashes_def)

text \<open>
  C9, amended. \<open>normalizeUrl (normalizeUrl x) = normalizeUrl x\<close> holds exactly when
  \<open>normalizeUrl x\<close> is not the bare prefix \<open>https://\<close> and does not end in a
  whitespace character.
\<close>

theorem normalizeUrl_idempotent_iff:
  "normalizeUrl (normalizeUrl x) = normalizeUrl x \<longleftrightarrow>
     normalizeUrl x \<noteq> ''https://'' \<and> \<not> isWhiteSpace (last (normalizeUrl x))"
  unfolding normalizeUrl_eq_spec by (rule normalizeBySteps_twice)

section \<open>Facts about the scores\<close>

text \<open>Fewer than three dates: 50, whatever the dates and the arithmetic.\<close>

lemma consistency_short:
  "length dates < 3 \<Longrightarrow> calculateConsistencyScore A now dates = numLit A 50"
  by (simp add: calculateConsistencyScore_def)

lemma idealArith_ops:
  "numLit idealArith x = Some x"
  "numAdd idealArith (Some x) (Some y) = Some (x + y)"
  "numSub idealArith (Some x) (Some y) = Some (x - y)"
  "numMul idealArith (Some x) (Some y) = Some (x * y)"
  "y \<noteq> 0 \<Longrightarrow> numDiv idealArith (Some x) (Some y) = Some (x / y)"
  "numLess idealArith (Some x) (Some y) = (x < y)"
  "numStrictEq idealArith (Some x) (Some y) = (x = y)"
  "mathMin idealArith (Some x) (Some y) = Some (min x y)"
  "mathRound idealArith (Some x) = Some (real_of_int (round x))"
  "numOfInt idealArith (Some k) = Some (real_of_int k)"
  by (auto simp: idealArith_def lift2_def numOfInt_def)

lemma idealArith_msPerYear: "msPerYear idealArith = Some 31536000000"
  by (simp add: msPerYear_def msPerDay_def idealArith_ops)

text \<open>
  C2. The range 0..100 is what \<open>types.ts\<close> writes next to \<open>qualityScore\<close>, and the
  sibling score clamps its result; \<open>calculateQualityScore\<close> only caps each term from
  above and rounds the sum. With every statistic 0 and a first post dated ten years
  after the clock reading, the longevity term is \<open>min(100, -200) * 0.10\<close> and the
  score is -20. (Each step of this run is exact in doubles but the product
  \<open>-200 * 0.10\<close>, which rounds to -20.)
\<close>

theorem calculateQualityScore_below_zero:
  "calculateQualityScore idealArith exampleParseDate 1700000000000 futureStats = Some (- 20)"
  by (simp add: calculateQualityScore_def futureStats_def exampleParseDate_def idealArith_ops
      idealArith_msPerYear round_def)

section \<open>Facts about the relay fetcher\<close>

lemma tryProxies_all_fail:
  "\<forall>q \<in> set ps. \<not> succeeds (fetch (q @ e)) \<Longrightarrow>
   tryProxies fetch e ps le =
     (map (\<lambda>q. q @ e) ps,
      Inl (if ps = [] then (case le of Some x \<Rightarrow> x | None \<Rightarrow> genericRelayError)
           else observedError (fetch (last ps @ e))))"
proof (induction ps arbitrary: le)
  case Nil
  show ?case by (simp add: genericRelayError_def split: option.split)
next
  case (Cons p ps)
  from Cons.prems have rest: "\<forall>q \<in> set ps. \<not> succeeds (fetch (q @ e))" by simp
  from Cons.prems have here: "\<not> succeeds (fetch (p @ e))" by simp
  show ?case
  proof (cases "fetch (p @ e)")
    case (Resolved r)
    with here have "\<not> ok r" by (simp add: succeeds_def)
    with Resolved show ?thesis
      by (simp add: Cons.IH [OF rest] observedError_def)
  next
    case (Rejected x)
    then show ?thesis
      by (simp add: Cons.IH [OF rest] observedError_def)
  qed
qed

lemma tryProxies_first_success:
  "\<forall>q \<in> set pre. \<not> succeeds (fetch (q @ e)) \<Longrightarrow> fetch (p @ e) = Resolved resp \<Longrightarrow> ok resp \<Longrightarrow>
   tryProxies fetch e (pre @ p # post) le = (map (\<lambda>q. q @ e) (pre @ [p]), Inr resp)"
proof (induction pre arbitrary: le)
  case Nil
  then show ?case by simp
next
  case (Cons a pre)
  from Cons.prems have rest: "\<forall>q \<in> set pre. \<not> succeeds (fetch (q @ e))" by simp
  from Cons.prems have here: "\<not> succeeds (fetch (a @ e))" by simp
  note ih = Cons.IH [OF rest Cons.prems(2) Cons.prems(3)]
  show ?case
  proof (cases "fetch (a @ e)")
    case (Resolved r)
    with here have "\<not> ok r" by (simp add: succeeds_def)
    with Resolved show ?thesis by (simp add: ih)
  next
    case (Rejected x)
    then show ?thesis by (simp add: ih)
  qed
qed

text \<open>
  C6. \<open>fetchWithProxy\<close> tries the relays in order. When a relay answers with a
  successful response after every earlier relay failed, that response is returned
  unmodified and exactly the relays up to it were fetched: no later relay is tried.
  When every relay rejects, times out or answers with a non-success status, it
  fails with the last observed error, or with the generic message about
  connectivity and ad-blockers when no error was captured (an empty relay list).
  The source runs the loop on \<open>PROXIES\<close>: \<open>fetchWithProxy = fetchWithProxyVia PROXIES\<close>.
\<close>

theorem fetchWithProxy_fallback:
  "(ps = pre @ p # post
      \<and> (\<forall>q \<in> set pre. \<not> succeeds (fetch (q @ enc (cacheBust t target))))
      \<and> fetch (p @ enc (cacheBust t target)) = Resolved resp \<and> ok resp
    \<longrightarrow> fetchWithProxyVia ps fetch enc t target
          = (map (\<lambda>q. q @ enc (cacheBust t target)) (pre @ [p]), Inr resp))
   \<and> ((\<forall>q \<in> set ps. \<not> succeeds (fetch (q @ enc (cacheBust t target))))
    \<longrightarrow> fetchWithProxyVia ps fetch enc t target
          = (map (\<lambda>q. q @ enc (cacheBust t target)) ps,
             Inl (if ps = [] then genericRelayError
                  else observedError (fetch (last ps @ enc (cacheBust t target))))))"
proof (intro conjI impI)
  assume "ps = pre @ p # post
      \<and> (\<forall>q \<in> set pre. \<not> succeeds (fetch (q @ enc (cacheBust t target))))
      \<and> fetch (p @ enc (cacheBust t target)) = Resolved resp \<and> ok resp"
  then show "fetchWithProxyVia ps fetch enc t target
          = (map (\<lambda>q. q @ enc (cacheBust t target)) (pre @ [p]), Inr resp)"
    unfolding fetchWithProxyVia_def Let_def
    using tryProxies_first_success [of pre fetch "enc (cacheBust t target)" p resp post None]
    by blast
next
  assume "\<forall>q \<in> set ps. \<not> succeeds (fetch (q @ enc (cacheBust t target)))"
  then show "fetchWithProxyVia ps fetch enc t target
          = (map (\<lambda>q. q @ enc (cacheBust t target)) ps,
             Inl (if ps = [] then genericRelayError
                  else observedError (fetch (last ps @ enc (cacheBust t target)))))"
    unfolding fetchWithProxyVia_def Let_def
    using tryProxies_all_fail [of ps fetch "enc (cacheBust t target)" None]
    by simp
qed

lemma exampleFetch_relays:
  "exampleFetch (''https://corsproxy.io/?'' @ e) = Rejected (Error ''Failed to fetch'')"
  "exampleFetch (''https://api.allorigins.win/raw?url='' @ e)
     = Resolved \<lparr> ok = False, httpStatus = 500, body = '''' \<rparr>"
  "exampleFetch (''https://api.codetabs.com/v1/proxy?quest='' @ e) = Resolved okResponse"
  by (simp_all add: exampleFetch_def startsWith_def)

lemma failingFetch_relays:
  "failingFetch (''https://corsproxy.io/?'' @ e) = Rejected (Error ''Failed to fetch'')"
  "failingFetch (''https://api.allorigins.win/raw?url='' @ e) = Rejected (Error ''Failed to fetch'')"
  "failingFetch (''https://api.codetabs.com/v1/proxy?quest='' @ e) = Rejected (Error ''Failed to fetch'')"
  "failingFetch (''https://cors-anywhere.herokuapp.com/'' @ e)
     = Resolved \<lparr> ok = False, httpStatus = 429, body = '''' \<rparr>"
  by (simp_all add: failingFetch_def startsWith_def)

lemma numberToString_429: "numberToString 429 = ''429''"
  by code_simp

text \<open>
  On the fixed relay list: the first relay rejects, the second answers 500, the
  third answers 200 and is returned, the fourth is never fetched; and when all four
  fail, the error of the last one is thrown.
\<close>

theorem fetchWithProxy_fallback_witness:
  "fetchWithProxy exampleFetch exampleEncode 1700000000000 ''https://a.blogspot.com''
     = (map (\<lambda>q. q @ exampleEncode (cacheBust 1700000000000 ''https://a.blogspot.com''))
          [''https://corsproxy.io/?'', ''https://api.allorigins.win/raw?url='',
           ''https://api.codetabs.com/v1/proxy?quest=''],
        Inr okResponse)
   \<and> fetchWithProxy failingFetch exampleEncode 1700000000000 ''https://a.blogspot.com''
     = (map (\<lambda>q. q @ exampleEncode (cacheBust 1700000000000 ''https://a.blogspot.com'')) PROXIES,
        Inl (Error ''Proxy returned status 429''))"
proof -
  define e where "e = exampleEncode (cacheBust 1700000000000 ''https://a.blogspot.com'')"
  have split: "PROXIES = [''https://corsproxy.io/?'', ''https://api.allorigins.win/raw?url='']
      @ ''https://api.codetabs.com/v1/proxy?quest='' # [''https://cors-anywhere.herokuapp.com/'']"
    by (simp add: PROXIES_def)
  have pre: "\<forall>q \<in> set [''https://corsproxy.io/?'', ''https://api.allorigins.win/raw?url=''].
               \<not> succeeds (exampleFetch (q @ e))"
    by (simp add: exampleFetch_relays [simplified] succeeds_def)
  have hit: "exampleFetch (''https://api.codetabs.com/v1/proxy?quest='' @ e) = Resolved okResponse"
    by (rule exampleFetch_relays)
  have okr: "ok okResponse" by (simp add: okResponse_def)
  have allfail: "\<forall>q \<in> set PROXIES. \<not> succeeds (failingFetch (q @ e))"
    by (simp add: PROXIES_def failingFetch_relays [simplified] succeeds_def)
  have lastp: "last PROXIES = ''https://cors-anywhere.herokuapp.com/''" "PROXIES \<noteq> []"
    by (simp_all add: PROXIES_def)
  have obs: "observedError (failingFetch (last PROXIES @ e)) = Error ''Proxy returned status 429''"
    by (simp add: lastp failingFetch_relays [simplified] observedError_def numberToString_429)
  from fetchWithProxy_fallback [of PROXIES
      "[''https://corsproxy.io/?'', ''https://api.allorigins.win/raw?url='']"
      "''https://api.codetabs.com/v1/proxy?quest=''" "[''https://cors-anywhere.herokuapp.com/'']"
      exampleFetch exampleEncode 1700000000000 "''https://a.blogspot.com''" okResponse]
    split pre hit okr
  have one: "fetchWithProxyVia PROXIES exampleFetch exampleEncode 1700000000000 ''https://a.blogspot.com''
     = (map (\<lambda>q. q @ e) ([''https://corsproxy.io/?'', ''https://api.allorigins.win/raw?url='']
          @ [''https://api.codetabs.com/v1/proxy?quest='']), Inr okResponse)"
    unfolding e_def by blast
  from fetchWithProxy_fallback [of PROXIES _ _ _ failingFetch exampleEncode 1700000000000
      "''https://a.blogspot.com''"] allfail
  have two: "fetchWithProxyVia PROXIES failingFetch exampleEncode 1700000000000 ''https://a.blogspot.com''
     = (map (\<lambda>q. q @ e) PROXIES,
        Inl (if PROXIES = [] then genericRelayError else observedError (failingFetch (last PROXIES @ e))))"
    unfolding e_def by blast
  from one two obs lastp(2) show ?thesis
    unfolding fetchWithProxy_def e_def [symmetric] by simp
qed

section \<open>Facts about the orchestrator\<close>


lemma firstPostDateOf_local:
  "firstPostDateOf env (map (e_processEntry env) (entriesOf pf)) None = oldestLocalDate env pf"
proof (cases "entriesOf pf = []")
  case True
  then show ?thesis by (simp add: firstPostDateOf_def oldestLocalDate_def)
next
  case False
  then have "map (\<lambda>p. parseDate env (pubDate p)) (map (e_processEntry env) (entriesOf pf))
               ! (length (entriesOf pf) - 1)
             = parseDate env (pubDate (e_processEntry env (last (entriesOf pf))))"
    by (simp add: last_conv_nth)
  with False show ?thesis by (simp add: firstPostDateOf_def oldestLocalDate_def)
qed

lemma assemble_valid:
  assumes "firstPostDateOf env (map (e_processEntry env) (entriesOf pf)) c = Some f"
    and "lastPostDateOf env (map (e_processEntry env) (entriesOf pf)) = Some l"
  shows "assemble env pf html pages c =
           Inr (snapshotOf env pf
                  (statsOf env pf html pages (e_toISOString env f) (e_toISOString env l))
                  (e_toISOString env l))"
  using assms by (simp add: assemble_def toISOString_def)

lemma assemble_invalid:
  assumes "firstPostDateOf env (map (e_processEntry env) (entriesOf pf)) c = None
           \<or> lastPostDateOf env (map (e_processEntry env) (entriesOf pf)) = None"
  shows "assemble env pf html pages c = Inl rangeError"
proof (cases "firstPostDateOf env (map (e_processEntry env) (entriesOf pf)) c")
  case None
  then show ?thesis by (simp add: assemble_def toISOString_def)
next
  case (Some f)
  with assms have "lastPostDateOf env (map (e_processEntry env) (entriesOf pf)) = None" by simp
  with Some show ?thesis by (simp add: assemble_def toISOString_def)
qed

lemma assemble_Inr:
  assumes "assemble env pf html pages c = Inr a"
  obtains f l where "firstPostDateOf env (map (e_processEntry env) (entriesOf pf)) c = Some f"
    and "lastPostDateOf env (map (e_processEntry env) (entriesOf pf)) = Some l"
    and "a = snapshotOf env pf
               (statsOf env pf html pages (e_toISOString env f) (e_toISOString env l))
               (e_toISOString env l)"
proof (cases "firstPostDateOf env (map (e_processEntry env) (entriesOf pf)) c")
  case None
  then have "assemble env pf html pages c = Inl rangeError" by (simp add: assemble_invalid)
  with assms show ?thesis by simp
next
  case (Some f)
  show ?thesis
  proof (cases "lastPostDateOf env (map (e_processEntry env) (entriesOf pf))")
    case None
    then have "assemble env pf html pages c = Inl rangeError" by (simp add: assemble_invalid)
    with assms show ?thesis by simp
  next
    case l: (Some l)
    from assemble_valid [OF Some l, of html pages] assms
    have "a = snapshotOf env pf
               (statsOf env pf html pages (e_toISOString env f) (e_toISOString env l))
               (e_toISOString env l)"
      by simp
    with Some l show ?thesis by (rule that)
  qed
qed

lemma snapshot_fields:
  "aPosts (snapshotOf env pf sv li) = take MAX_RECENT_POSTS (map (e_processEntry env) (entriesOf pf))"
  "aTitle (snapshotOf env pf sv li) = orElse (feedTitle pf) ''Untitled Blog''"
  "aTags (snapshotOf env pf sv li) =
     take 15 (foldl (\<lambda>s p. foldl setAdd s (postTags p)) [] (map (e_processEntry env) (entriesOf pf)))"
  "aStats (snapshotOf env pf sv li) = sv"
  by (simp_all add: snapshotOf_def Let_def)


lemma newSet_snoc: "newSet (xs @ [x]) = setAdd (newSet xs) x"
  by (simp add: newSet_def)

lemma set_newSet: "set (newSet xs) = set xs"
  by (induction xs rule: rev_induct) (auto simp: newSet_snoc setAdd_def newSet_def)

lemma newSet_first_seen: "newSet xs = rev (remdups (rev xs))"
proof (induction xs rule: rev_induct)
  case Nil
  show ?case by (simp add: newSet_def)
next
  case (snoc x xs)
  have "newSet (xs @ [x]) = (if x \<in> set xs then newSet xs else newSet xs @ [x])"
    by (simp add: newSet_snoc setAdd_def set_newSet)
  with snoc show ?case by simp
qed

lemma foldl_setAdd_concat:
  "foldl (\<lambda>s p. foldl setAdd s (g p)) acc ps = foldl setAdd acc (concat (map g ps))"
  by (induction ps arbitrary: acc) simp_all

lemma aTags_first_seen:
  "aTags (snapshotOf env pf sv li) =
     take 15 (rev (remdups (rev (concat (map (\<lambda>e. postTags (e_processEntry env e)) (entriesOf pf))))))"
proof -
  have "foldl (\<lambda>s p. foldl setAdd s (postTags p)) [] (map (e_processEntry env) (entriesOf pf))
        = newSet (concat (map postTags (map (e_processEntry env) (entriesOf pf))))"
    unfolding newSet_def by (rule foldl_setAdd_concat)
  then show ?thesis
    by (simp add: snapshot_fields newSet_first_seen comp_def)
qed

lemma length_rev_remdups_append:
  "length (rev (remdups (rev (xs @ ys)))) \<le> length xs + length ys"
  using length_remdups_leq [of "rev (xs @ ys)"] by simp

lemma first_seen_prefix:
  "distinct xs \<Longrightarrow> prefix xs (rev (remdups (rev (xs @ ys))))"
proof (induction ys rule: rev_induct)
  case Nil
  then show ?case by (simp add: distinct_remdups_id)
next
  case (snoc y ys)
  then show ?case by (auto simp: prefix_def)
qed

lemma friendlyError_range: "friendlyError rangeError = rangeError"
  unfolding rangeError_def by code_simp

lemma analyze_success:
  assumes "e_fetchJsonFeed env (normalizeUrl u) Posts 25 1 = Inr (Some pf)"
  shows "analyzeBlogAndFetch env u =
     ([FeedRequest (normalizeUrl u) Posts 25 1, HtmlRequest (normalizeUrl u),
       FeedRequest (normalizeUrl u) Pages 10 1]
        @ fst (fetchHistory env (normalizeUrl u) (reportedTotal pf)),
      (case assemble env pf (e_fetchHtml env (normalizeUrl u))
              (case e_fetchJsonFeed env (normalizeUrl u) Pages 10 1 of Inl err \<Rightarrow> None | Inr f \<Rightarrow> f)
              (snd (fetchHistory env (normalizeUrl u) (reportedTotal pf))) of
         Inl err \<Rightarrow> Inl (friendlyError err)
       | Inr analysisData \<Rightarrow> Inr analysisData))"
  using assms by (simp add: analyzeBlogAndFetch_def Let_def split: prod.split)

lemma analyze_Inr:
  assumes "snd (analyzeBlogAndFetch env u) = Inr a"
  obtains pf where "e_fetchJsonFeed env (normalizeUrl u) Posts 25 1 = Inr (Some pf)"
    and "assemble env pf (e_fetchHtml env (normalizeUrl u))
             (case e_fetchJsonFeed env (normalizeUrl u) Pages 10 1 of Inl err \<Rightarrow> None | Inr f \<Rightarrow> f)
             (snd (fetchHistory env (normalizeUrl u) (reportedTotal pf))) = Inr a"
proof (cases "e_fetchJsonFeed env (normalizeUrl u) Posts 25 1")
  case (Inl err)
  with assms show ?thesis by (simp add: analyzeBlogAndFetch_def Let_def)
next
  case (Inr f)
  show ?thesis
  proof (cases f)
    case None
    with Inr assms show ?thesis by (simp add: analyzeBlogAndFetch_def Let_def)
  next
    case (Some pf)
    with Inr have f: "e_fetchJsonFeed env (normalizeUrl u) Posts 25 1 = Inr (Some pf)" by simp
    from assms have "assemble env pf (e_fetchHtml env (normalizeUrl u))
             (case e_fetchJsonFeed env (normalizeUrl u) Pages 10 1 of Inl err \<Rightarrow> None | Inr f \<Rightarrow> f)
             (snd (fetchHistory env (normalizeUrl u) (reportedTotal pf))) = Inr a"
      by (simp add: analyze_success [OF f] split: sum.splits)
    with f show ?thesis by (rule that)
  qed
qed

text \<open>What a successful analysis returns, field by field.\<close>

lemma analyze_Inr_fields:
  assumes "snd (analyzeBlogAndFetch env u) = Inr a"
  obtains pf where "e_fetchJsonFeed env (normalizeUrl u) Posts 25 1 = Inr (Some pf)"
    and "aPosts a = take MAX_RECENT_POSTS (map (e_processEntry env) (entriesOf pf))"
    and "aTitle a = orElse (feedTitle pf) ''Untitled Blog''"
    and "aTags a = take 15 (rev (remdups (rev (concat
                      (map (\<lambda>e. postTags (e_processEntry env e)) (entriesOf pf))))))"
proof -
  from assms obtain pf where f: "e_fetchJsonFeed env (normalizeUrl u) Posts 25 1 = Inr (Some pf)"
    and "assemble env pf (e_fetchHtml env (normalizeUrl u))
             (case e_fetchJsonFeed env (normalizeUrl u) Pages 10 1 of Inl err \<Rightarrow> None | Inr f \<Rightarrow> f)
             (snd (fetchHistory env (normalizeUrl u) (reportedTotal pf))) = Inr a"
    by (rule analyze_Inr)
  then obtain sv li where a: "a = snapshotOf env pf sv li"
    by (elim assemble_Inr) blast
  show ?thesis
    by (rule that [OF f]) (simp_all only: a snapshot_fields(1,2) aTags_first_seen)
qed



text \<open>
  C10. For every successful analysis, the posts of the returned snapshot are the
  first \<open>MAX_RECENT_POSTS = 5\<close> of the processed entries of the posts feed, in the
  order of the feed, and never more than 5.
\<close>

theorem analysis_posts_capped:
  "snd (analyzeBlogAndFetch env u) = Inr a \<Longrightarrow>
     (\<exists>pf. e_fetchJsonFeed env (normalizeUrl u) Posts 25 1 = Inr (Some pf)
           \<and> aPosts a = take 5 (map (e_processEntry env) (entriesOf pf)))
     \<and> length (aPosts a) \<le> 5"
proof -
  assume "snd (analyzeBlogAndFetch env u) = Inr a"
  then obtain pf where f: "e_fetchJsonFeed env (normalizeUrl u) Posts 25 1 = Inr (Some pf)"
    and "aPosts a = take MAX_RECENT_POSTS (map (e_processEntry env) (entriesOf pf))"
    by (rule analyze_Inr_fields)
  then have p: "aPosts a = take 5 (map (e_processEntry env) (entriesOf pf))"
    by (simp add: MAX_RECENT_POSTS_def)
  with f show ?thesis by auto
qed


section \<open>The orchestrator on the example server\<close>

lemma normalize_example: "normalizeUrl ''a.blogspot.com/'' = ''https://a.blogspot.com''"
  by (simp add: normalizeUrl_eq_spec normalizeBySteps_def trim_def isWhiteSpace_def
      removeTrailingSlashes_def)

lemma normalize_example_again: "normalizeUrl ''https://a.blogspot.com'' = ''https://a.blogspot.com''"
  by (simp add: normalizeUrl_eq_spec normalizeBySteps_def trim_def isWhiteSpace_def
      removeTrailingSlashes_def)

lemma envWith_posts:
  "e_fetchJsonFeed (envWith f) c Posts 25 1 = Inr (Some (f\<lparr> entry := Some (take 25 (entriesOf f)) \<rparr>))"
  by (simp add: envWith_def)

lemma envWith_process: "e_processEntry (envWith f) = (\<lambda>p. p)"
  by (simp add: envWith_def)


text \<open>
  On the example server every date string that the history fetch returns is the
  date of an entry of the feed.
\<close>

lemma envWith_history_date:
  assumes "snd (fetchHistory (envWith f) c t) = Some s"
  shows "\<exists>p \<in> set (entriesOf f). pubDate p = Some s"
proof (cases t)
  case None
  with assms show ?thesis by (simp add: fetchHistory_def)
next
  case (Some n)
  show ?thesis
  proof (cases "0 < n \<and> 1 < min n 500")
    case False
    with assms Some show ?thesis by (auto simp: fetchHistory_def Let_def split: if_splits)
  next
    case True
    let ?es = "drop (nat (min n 500 - 1)) (entriesOf f)"
    show ?thesis
    proof (cases ?es)
      case Nil
      with assms Some True show ?thesis
        by (simp add: fetchHistory_def Let_def envWith_def)
    next
      case (Cons x xs)
      with assms Some True have "pubDate x = Some s"
        by (simp add: fetchHistory_def Let_def envWith_def)
      moreover from Cons have "x \<in> set ?es" by simp
      then have "x \<in> set (entriesOf f)" by (rule in_set_dropD)
      ultimately show ?thesis by blast
    qed
  qed
qed

text \<open>When every entry of the feed carries a date that parses, the analysis returns.\<close>

lemma envWith_success:
  assumes "\<forall>p \<in> set (entriesOf f). \<exists>s. pubDate p = Some s \<and> exampleParseDate s \<noteq> None"
  shows "\<exists>a. snd (analyzeBlogAndFetch (envWith f) u) = Inr a"
proof -
  let ?env = "envWith f"
  let ?f = "f\<lparr> entry := Some (take 25 (entriesOf f)) \<rparr>"
  let ?c = "snd (fetchHistory ?env (normalizeUrl u) (reportedTotal ?f))"
  let ?ps = "map (e_processEntry ?env) (entriesOf ?f)"
  have f: "e_fetchJsonFeed ?env (normalizeUrl u) Posts 25 1 = Inr (Some ?f)"
    by (rule envWith_posts)
  have es: "set (entriesOf ?f) \<subseteq> set (entriesOf f)"
  proof -
    have "entriesOf ?f = take 25 (entriesOf f)" by (simp add: entriesOf_def)
    then show ?thesis by (simp add: set_take_subset)
  qed
  have p: "e_parseDate ?env = exampleParseDate" by (simp add: envWith_def)
  have dated: "parseDate ?env (pubDate q) \<noteq> None" if "q \<in> set (entriesOf f)" for q
    using assms that by (auto simp: parseDate_def p)
  have l: "lastPostDateOf ?env ?ps \<noteq> None"
  proof (cases "entriesOf ?f")
    case Nil
    then show ?thesis by (simp add: envWith_process lastPostDateOf_def)
  next
    case (Cons x xs)
    with es have "x \<in> set (entriesOf f)" by auto
    with Cons dated show ?thesis by (simp add: envWith_process lastPostDateOf_def)
  qed
  have o: "firstPostDateOf ?env ?ps None \<noteq> None"
  proof (cases "entriesOf ?f = []")
    case True
    then show ?thesis by (simp add: envWith_process firstPostDateOf_def)
  next
    case False
    then have "last (entriesOf ?f) \<in> set (entriesOf ?f)" by (rule last_in_set)
    with es have "last (entriesOf ?f) \<in> set (entriesOf f)" by auto
    then have "parseDate ?env (pubDate (last (entriesOf ?f))) \<noteq> None" by (rule dated)
    with False have "oldestLocalDate ?env ?f \<noteq> None"
      by (simp add: oldestLocalDate_def envWith_process)
    then show ?thesis unfolding firstPostDateOf_local .
  qed
  have d: "firstPostDateOf ?env ?ps ?c \<noteq> None"
  proof (cases ?c)
    case None
    with o show ?thesis by simp
  next
    case (Some s)
    then obtain q where qs: "q \<in> set (entriesOf f)" and q: "pubDate q = Some s"
      by (auto dest: envWith_history_date)
    from qs have "parseDate ?env (pubDate q) \<noteq> None" by (rule dated)
    with q have "parseDate ?env (Some s) \<noteq> None" by simp
    with o Some show ?thesis
      by (cases "s = []") (simp_all add: firstPostDateOf_def Let_def)
  qed
  from l d obtain lv dv where "lastPostDateOf ?env ?ps = Some lv"
    and "firstPostDateOf ?env ?ps ?c = Some dv"
    by auto
  then show ?thesis
    by (simp add: analyze_success [OF f] assemble_valid)
qed

lemma example_feeds_dated:
  "\<forall>p \<in> set (entriesOf twoPostFeed). \<exists>s. pubDate p = Some s \<and> exampleParseDate s \<noteq> None"
  "\<forall>p \<in> set (entriesOf onePostFeed). \<exists>s. pubDate p = Some s \<and> exampleParseDate s \<noteq> None"
  "\<forall>p \<in> set (entriesOf sixPostFeed). \<exists>s. pubDate p = Some s \<and> exampleParseDate s \<noteq> None"
  "\<forall>p \<in> set (entriesOf taggedFeed). \<exists>s. pubDate p = Some s \<and> exampleParseDate s \<noteq> None"
  by (simp_all add: entriesOf_def twoPostFeed_def onePostFeed_def sixPostFeed_def taggedFeed_def
      mkPost_def exampleParseDate_def)

text \<open>A feed of six entries: the snapshot holds the five newest.\<close>

theorem analysis_posts_capped_witness:
  "\<exists>a. snd (analyzeBlogAndFetch (envWith sixPostFeed) ''a.blogspot.com/'') = Inr a
       \<and> map postTitle (aPosts a) = [''P6'', ''P5'', ''P4'', ''P3'', ''P2'']
       \<and> length (aPosts a) \<le> 5"
proof -
  let ?f = "sixPostFeed\<lparr> entry := Some (take 25 (entriesOf sixPostFeed)) \<rparr>"
  have f: "e_fetchJsonFeed (envWith sixPostFeed) (normalizeUrl ''a.blogspot.com/'') Posts 25 1
             = Inr (Some ?f)"
    by (rule envWith_posts)
  from envWith_success [OF example_feeds_dated(3)] obtain a
    where a: "snd (analyzeBlogAndFetch (envWith sixPostFeed) ''a.blogspot.com/'') = Inr a"
    by blast
  from analysis_posts_capped [OF a] f
  have "aPosts a = take 5 (map (e_processEntry (envWith sixPostFeed)) (entriesOf ?f))"
    and l: "length (aPosts a) \<le> 5"
    by auto
  moreover have "map postTitle (take 5 (map (e_processEntry (envWith sixPostFeed)) (entriesOf ?f)))
      = [''P6'', ''P5'', ''P4'', ''P3'', ''P2'']"
    by (simp add: envWith_process entriesOf_def sixPostFeed_def mkPost_def)
  ultimately have "snd (analyzeBlogAndFetch (envWith sixPostFeed) ''a.blogspot.com/'') = Inr a
       \<and> map postTitle (aPosts a) = [''P6'', ''P5'', ''P4'', ''P3'', ''P2'']
       \<and> length (aPosts a) \<le> 5"
    using a by simp
  then show ?thesis ..
qed



section \<open>Facts about the collection handlers\<close>

lemma orElse_nonempty: "d \<noteq> [] \<Longrightarrow> orElse x d \<noteq> []"
  by (simp add: orElse_def split: option.split)

lemma analysis_title_nonempty:
  assumes "snd (analyzeBlogAndFetch env u) = Inr a"
  shows "aTitle a \<noteq> []"
proof -
  from assms obtain pf where "e_fetchJsonFeed env (normalizeUrl u) Posts 25 1 = Inr (Some pf)"
    and "aTitle a = orElse (feedTitle pf) ''Untitled Blog''"
    by (elim analyze_Inr_fields) blast
  then show ?thesis by (simp add: orElse_nonempty)
qed

lemma handleAddBlog_success:
  assumes "newBlogUrl st \<noteq> []"
    and "\<not> list_ex (\<lambda>b. url b = normalizeUrl (newBlogUrl st)) (blogs st)"
    and "analyze (normalizeUrl (newBlogUrl st)) = Inr a"
    and "aTitle a \<noteq> []"
  shows "\<exists>nb. blogs (handleAddBlog analyze classify uuid nowIso st) = nb # blogs st
           \<and> tags nb = newSet (aTags a @ crTags (classify (aTitle a) (aDescription a) (aPosts a)))"
  using assms by (simp add: handleAddBlog_def Let_def)

text \<open>
  C3, amended. When a blog is added, its stored tags are the deduplicated union, in
  first-seen order, of the analyzer-derived tags followed by the classifier's tags.
  The analyzer-derived tags are the first 15 distinct post tags; they come first in
  the stored list. Only they are capped: the stored list has at most 15 entries
  more than the classifier returned tags.
\<close>

theorem added_blog_tags:
  assumes "newBlogUrl st \<noteq> []"
    and "\<not> list_ex (\<lambda>b. url b = normalizeUrl (newBlogUrl st)) (blogs st)"
    and "snd (analyzeBlogAndFetch env (normalizeUrl (newBlogUrl st))) = Inr a"
  shows "\<exists>nb. blogs (handleAddBlog (\<lambda>u. snd (analyzeBlogAndFetch env u)) classify uuid nowIso st)
               = nb # blogs st
           \<and> tags nb = rev (remdups (rev (aTags a @ crTags (classify (aTitle a) (aDescription a) (aPosts a)))))
           \<and> (\<exists>pf. e_fetchJsonFeed env (normalizeUrl (normalizeUrl (newBlogUrl st))) Posts 25 1
                      = Inr (Some pf)
                 \<and> aTags a = take 15 (rev (remdups (rev (concat
                      (map (\<lambda>e. postTags (e_processEntry env e)) (entriesOf pf)))))))
           \<and> prefix (aTags a) (tags nb)
           \<and> length (aTags a) \<le> 15
           \<and> length (tags nb) \<le> 15 + length (crTags (classify (aTitle a) (aDescription a) (aPosts a)))"
proof -
  let ?c = "crTags (classify (aTitle a) (aDescription a) (aPosts a))"
  from assms(3) obtain pf
    where f: "e_fetchJsonFeed env (normalizeUrl (normalizeUrl (newBlogUrl st))) Posts 25 1 = Inr (Some pf)"
      and t: "aTags a = take 15 (rev (remdups (rev (concat
                      (map (\<lambda>e. postTags (e_processEntry env e)) (entriesOf pf))))))"
    by (elim analyze_Inr_fields) blast
  then have d: "distinct (aTags a)" and l: "length (aTags a) \<le> 15"
    by simp_all
  from handleAddBlog_success [OF assms(1,2), of "\<lambda>u. snd (analyzeBlogAndFetch env u)" a classify uuid nowIso]
    assms(3) analysis_title_nonempty [OF assms(3)]
  obtain nb where nb: "blogs (handleAddBlog (\<lambda>u. snd (analyzeBlogAndFetch env u)) classify uuid nowIso st)
               = nb # blogs st"
    and tg: "tags nb = newSet (aTags a @ ?c)"
    by auto
  have tg': "tags nb = rev (remdups (rev (aTags a @ ?c)))"
    by (simp only: tg newSet_first_seen)
  have p: "prefix (aTags a) (tags nb)"
    unfolding tg' using d by (rule first_seen_prefix)
  have "length (tags nb) \<le> length (aTags a) + length ?c"
    unfolding tg' by (rule length_rev_remdups_append)
  with l have b: "length (tags nb) \<le> 15 + length ?c" by simp
  from nb tg' f t p l b show ?thesis by blast
qed

lemma adding_facts:
  "newBlogUrl addingState \<noteq> []"
  "\<not> list_ex (\<lambda>b. url b = normalizeUrl (newBlogUrl addingState)) (blogs addingState)"
  "normalizeUrl (newBlogUrl addingState) = ''https://a.blogspot.com''"
  "blogs addingState = []"
  by (simp_all add: addingState_def normalize_example)

lemma envWith_tags:
  assumes "snd (analyzeBlogAndFetch (envWith f) u) = Inr a"
  shows "aTags a = take 15 (rev (remdups (rev (concat (map postTags (take 25 (entriesOf f)))))))"
proof -
  from assms obtain pf where "e_fetchJsonFeed (envWith f) (normalizeUrl u) Posts 25 1 = Inr (Some pf)"
    and t: "aTags a = take 15 (rev (remdups (rev (concat
                      (map (\<lambda>e. postTags (e_processEntry (envWith f) e)) (entriesOf pf))))))"
    by (elim analyze_Inr_fields) blast
  then have "pf = f\<lparr> entry := Some (take 25 (entriesOf f)) \<rparr>"
    by (simp add: envWith_posts)
  then have "entriesOf pf = take 25 (entriesOf f)" by (simp add: entriesOf_def)
  with t show ?thesis by (simp add: envWith_process)
qed

lemma twoPost_tags:
  "snd (analyzeBlogAndFetch (envWith twoPostFeed) u) = Inr a \<Longrightarrow> aTags a = [''go'', ''web'']"
  by (simp add: envWith_tags entriesOf_def twoPostFeed_def mkPost_def)

lemma tagged_tags:
  "snd (analyzeBlogAndFetch (envWith taggedFeed) u) = Inr a \<Longrightarrow>
     aTags a = [''t01'', ''t02'', ''t03'', ''t04'', ''t05'', ''t06'', ''t07'', ''t08'',
        ''t09'', ''t10'', ''t11'', ''t12'', ''t13'', ''t14'', ''t15'']"
  by (simp add: envWith_tags entriesOf_def taggedFeed_def mkPost_def)

lemma exampleClassify_tags: "crTags (exampleClassify t d ps) = [''web'', ''tutorial'']"
  by (simp add: exampleClassify_def)

text \<open>
  The analyzer derives \<open>go, web\<close>, the classifier returns \<open>web, tutorial\<close>: the
  stored tags are \<open>go, web, tutorial\<close>.
\<close>

theorem added_blog_tags_witness:
  "\<exists>nb. blogs (handleAddBlog (\<lambda>u. snd (analyzeBlogAndFetch (envWith twoPostFeed) u))
                  exampleClassify ''id-1'' ''2023-11-14T22:13:20.000Z'' addingState) = [nb]
        \<and> tags nb = [''go'', ''web'', ''tutorial'']"
proof -
  from envWith_success [OF example_feeds_dated(1)] obtain a
    where s: "snd (analyzeBlogAndFetch (envWith twoPostFeed) (normalizeUrl (newBlogUrl addingState))) = Inr a"
    by blast
  have ta: "aTags a = [''go'', ''web'']"
    using s by (rule twoPost_tags)
  from added_blog_tags [OF adding_facts(1,2) s,
      of exampleClassify "''id-1''" "''2023-11-14T22:13:20.000Z''"]
  obtain nb where n: "blogs (handleAddBlog (\<lambda>u. snd (analyzeBlogAndFetch (envWith twoPostFeed) u))
                  exampleClassify ''id-1'' ''2023-11-14T22:13:20.000Z'' addingState)
                 = nb # blogs addingState"
    and t: "tags nb = rev (remdups (rev (aTags a @
               crTags (exampleClassify (aTitle a) (aDescription a) (aPosts a)))))"
    by blast
  from n have n': "blogs (handleAddBlog (\<lambda>u. snd (analyzeBlogAndFetch (envWith twoPostFeed) u))
                  exampleClassify ''id-1'' ''2023-11-14T22:13:20.000Z'' addingState) = [nb]"
    by (simp only: adding_facts(4))
  have "rev (remdups (rev ([''go'', ''web''] @ [''web'', ''tutorial''])))
          = [''go'', ''web'', ''tutorial'']"
    by simp
  with t have t': "tags nb = [''go'', ''web'', ''tutorial'']"
    by (simp only: ta exampleClassify_tags)
  from n' t' show ?thesis by blast
qed

text \<open>
  C3 as stated, with the stored tags capped at 15, fails: \<open>handleAddBlog\<close> does not
  cap the union. 15 analyzer-derived tags and the classifier's 2 new tags are stored
  as 17 tags.
\<close>

theorem added_blog_tags_exceed_cap:
  "length (tags (hd (blogs (handleAddBlog (\<lambda>u. snd (analyzeBlogAndFetch (envWith taggedFeed) u))
                  exampleClassify ''id-1'' ''2023-11-14T22:13:20.000Z'' addingState)))) = 17"
proof -
  from envWith_success [OF example_feeds_dated(4)] obtain a
    where s: "snd (analyzeBlogAndFetch (envWith taggedFeed) (normalizeUrl (newBlogUrl addingState))) = Inr a"
    by blast
  have ta: "aTags a = [''t01'', ''t02'', ''t03'', ''t04'', ''t05'', ''t06'', ''t07'', ''t08'',
        ''t09'', ''t10'', ''t11'', ''t12'', ''t13'', ''t14'', ''t15'']"
    using s by (rule tagged_tags)
  have ti: "aTitle a \<noteq> []"
    using s by (rule analysis_title_nonempty)
  from handleAddBlog_success [where analyze = "\<lambda>u. snd (analyzeBlogAndFetch (envWith taggedFeed) u)"
      and classify = exampleClassify and uuid = "''id-1''" and nowIso = "''2023-11-14T22:13:20.000Z''",
      OF adding_facts(1,2) s ti]
  obtain nb where n: "blogs (handleAddBlog (\<lambda>u. snd (analyzeBlogAndFetch (envWith taggedFeed) u))
                  exampleClassify ''id-1'' ''2023-11-14T22:13:20.000Z'' addingState)
                 = nb # blogs addingState"
    and t: "tags nb = newSet (aTags a @ crTags (exampleClassify (aTitle a) (aDescription a) (aPosts a)))"
    by blast
  have "length (rev (remdups (rev ([''t01'', ''t02'', ''t03'', ''t04'', ''t05'', ''t06'', ''t07'', ''t08'',
        ''t09'', ''t10'', ''t11'', ''t12'', ''t13'', ''t14'', ''t15''] @ [''web'', ''tutorial''])))) = 17"
    by simp
  with t have "length (tags nb) = 17"
    by (simp only: ta exampleClassify_tags newSet_first_seen)
  with n show ?thesis by (simp only: list.sel)
qed

text \<open>
  C7. If the analysis of a single-blog refresh fails, the state after
  \<open>handleRefreshBlog\<close> is the state before it: the record of that blog keeps every
  field and no other record changes.
\<close>

theorem failed_refresh_keeps_state:
  "find (\<lambda>b. blogId b = ident) (blogs st) = Some blog \<Longrightarrow> analyze (url blog) = Inl err \<Longrightarrow>
     handleRefreshBlog analyze nowIso st ident = st"
  by (simp add: handleRefreshBlog_def)

lemma library_facts:
  "blogs libraryState = [blogA, blogB]"
  "blogId blogA = ''id-a''" "blogId blogB = ''id-b''"
  "url blogA = ''https://a.blogspot.com''"
  "category blogA = ''Technology''" "isFavorite blogA" "tags blogA = [''web'', ''retro'']"
  by (simp_all add: libraryState_def blogA_def blogB_def)

lemma library_find: "find (\<lambda>b. blogId b = ''id-a'') (blogs libraryState) = Some blogA"
  by (simp add: library_facts)

lemma friendly_failed: "friendlyError (Error ''Failed to fetch'') =
  Error ''Network Error: Could not connect to the blog. Please try: 1. Disabling ad-blockers (they block proxies). 2. Verifying the URL.''"
  by code_simp

lemma down_analysis:
  "snd (analyzeBlogAndFetch downEnv u) =
     Inl (Error ''Network Error: Could not connect to the blog. Please try: 1. Disabling ad-blockers (they block proxies). 2. Verifying the URL.'')"
proof -
  have "e_fetchJsonFeed downEnv (normalizeUrl u) Posts 25 1 = Inl (Error ''Failed to fetch'')"
    by (simp add: downEnv_def)
  then show ?thesis
    by (simp only: analyzeBlogAndFetch_def Let_def sum.case snd_conv friendly_failed)
qed

text \<open>A library of two blogs and a server that no relay reaches.\<close>

theorem failed_refresh_keeps_state_witness:
  "find (\<lambda>b. blogId b = ''id-a'') (blogs libraryState) = Some blogA
   \<and> snd (analyzeBlogAndFetch downEnv (url blogA)) =
       Inl (Error ''Network Error: Could not connect to the blog. Please try: 1. Disabling ad-blockers (they block proxies). 2. Verifying the URL.'')
   \<and> handleRefreshBlog (\<lambda>u. snd (analyzeBlogAndFetch downEnv u)) ''2023-11-14T22:13:20.000Z''
        libraryState ''id-a'' = libraryState"
proof -
  from failed_refresh_keeps_state [where analyze = "\<lambda>u. snd (analyzeBlogAndFetch downEnv u)"
      and nowIso = "''2023-11-14T22:13:20.000Z''", OF library_find down_analysis]
  have "handleRefreshBlog (\<lambda>u. snd (analyzeBlogAndFetch downEnv u)) ''2023-11-14T22:13:20.000Z''
        libraryState ''id-a'' = libraryState" .
  with library_find down_analysis [of "url blogA"] show ?thesis by (intro conjI)
qed

lemma refreshed_frame:
  "blogId (refreshed a nowIso b) = blogId b"
  "url (refreshed a nowIso b) = url b"
  "feedUrl (refreshed a nowIso b) = feedUrl b"
  "category (refreshed a nowIso b) = category b"
  "sentimentScore (refreshed a nowIso b) = sentimentScore b"
  "language (refreshed a nowIso b) = language b"
  "isFavorite (refreshed a nowIso b) = isFavorite b"
  "addedAt (refreshed a nowIso b) = addedAt b"
  "tags (refreshed a nowIso b) = rev (remdups (rev (tags b @ aTags a)))"
  by (simp_all add: refreshed_def newSet_first_seen)

lemma refreshed_only:
  "refreshed a nowIso b =
     b\<lparr> title := title (refreshed a nowIso b), description := description (refreshed a nowIso b),
        lastBuildDate := lastBuildDate (refreshed a nowIso b), posts := posts (refreshed a nowIso b),
        status := status (refreshed a nowIso b), stats := stats (refreshed a nowIso b),
        qualityScore := qualityScore (refreshed a nowIso b), tags := tags (refreshed a nowIso b),
        lastCheckedAt := lastCheckedAt (refreshed a nowIso b) \<rparr>"
  by (simp add: refreshed_def)

lemma refresh_success:
  "find (\<lambda>b. blogId b = ident) (blogs st) = Some blog \<Longrightarrow> analyze (url blog) = Inr a \<Longrightarrow>
     handleRefreshBlog analyze nowIso st ident =
       st\<lparr> blogs := map (\<lambda>b. if blogId b = ident then refreshed a nowIso b else b) (blogs st) \<rparr>"
  by (simp add: handleRefreshBlog_def)

text \<open>
  C8. After a successful single-blog refresh the collection has the same length,
  and every record keeps its \<open>id\<close>, \<open>url\<close>, \<open>feedUrl\<close>, \<open>category\<close>,
  \<open>sentimentScore\<close>, \<open>language\<close>, \<open>isFavorite\<close> and \<open>addedAt\<close>: it differs from its
  old value in \<open>title\<close>, \<open>description\<close>, \<open>lastBuildDate\<close>, \<open>posts\<close>, \<open>status\<close>,
  \<open>stats\<close>, \<open>qualityScore\<close>, \<open>tags\<close> and \<open>lastCheckedAt\<close> at most. The tags of a
  refreshed record are its old tags united with the analyzer's, and a record of
  another id is unchanged.
\<close>

theorem refresh_frame:
  assumes "find (\<lambda>b. blogId b = ident) (blogs st) = Some blog" and "analyze (url blog) = Inr a"
  shows "length (blogs (handleRefreshBlog analyze nowIso st ident)) = length (blogs st)
    \<and> (\<forall>i < length (blogs st).
         (let old = blogs st ! i; new = blogs (handleRefreshBlog analyze nowIso st ident) ! i
          in blogId new = blogId old \<and> url new = url old \<and> feedUrl new = feedUrl old
             \<and> category new = category old \<and> sentimentScore new = sentimentScore old
             \<and> language new = language old \<and> isFavorite new = isFavorite old
             \<and> addedAt new = addedAt old
             \<and> new = old\<lparr> title := title new, description := description new,
                         lastBuildDate := lastBuildDate new, posts := posts new,
                         status := status new, stats := stats new,
                         qualityScore := qualityScore new, tags := tags new,
                         lastCheckedAt := lastCheckedAt new \<rparr>
             \<and> (blogId old = ident \<longrightarrow> tags new = rev (remdups (rev (tags old @ aTags a))))
             \<and> (blogId old \<noteq> ident \<longrightarrow> new = old)))"
proof -
  have rs: "handleRefreshBlog analyze nowIso st ident =
       st\<lparr> blogs := map (\<lambda>b. if blogId b = ident then refreshed a nowIso b else b) (blogs st) \<rparr>"
    using assms by (rule refresh_success)
  show ?thesis
proof (intro conjI allI impI)
  show "length (blogs (handleRefreshBlog analyze nowIso st ident)) = length (blogs st)"
    by (simp add: rs)
next
  fix i assume i: "i < length (blogs st)"
  show "let old = blogs st ! i; new = blogs (handleRefreshBlog analyze nowIso st ident) ! i
          in blogId new = blogId old \<and> url new = url old \<and> feedUrl new = feedUrl old
             \<and> category new = category old \<and> sentimentScore new = sentimentScore old
             \<and> language new = language old \<and> isFavorite new = isFavorite old
             \<and> addedAt new = addedAt old
             \<and> new = old\<lparr> title := title new, description := description new,
                         lastBuildDate := lastBuildDate new, posts := posts new,
                         status := status new, stats := stats new,
                         qualityScore := qualityScore new, tags := tags new,
                         lastCheckedAt := lastCheckedAt new \<rparr>
             \<and> (blogId old = ident \<longrightarrow> tags new = rev (remdups (rev (tags old @ aTags a))))
             \<and> (blogId old \<noteq> ident \<longrightarrow> new = old)"
  proof (cases "blogId (blogs st ! i) = ident")
    case True
    with i have "blogs (handleRefreshBlog analyze nowIso st ident) ! i = refreshed a nowIso (blogs st ! i)"
      by (simp add: rs)
    with True refreshed_only [of a nowIso "blogs st ! i"] show ?thesis
      by (simp only: Let_def refreshed_frame) simp
  next
    case False
    with i have "blogs (handleRefreshBlog analyze nowIso st ident) ! i = blogs st ! i"
      by (simp add: rs)
    with False show ?thesis by (simp add: Let_def)
  qed
qed
qed

text \<open>
  Refreshing the first of two blogs: it keeps its id, category and favourite flag,
  its tags \<open>web, retro\<close> gain \<open>go\<close>, and the second blog is untouched.
\<close>

theorem refresh_frame_witness:
  "(let st' = handleRefreshBlog (\<lambda>u. snd (analyzeBlogAndFetch (envWith twoPostFeed) u))
                ''2023-11-14T22:13:20.000Z'' libraryState ''id-a''
    in length (blogs st') = 2
       \<and> blogId (blogs st' ! 0) = ''id-a'' \<and> category (blogs st' ! 0) = ''Technology''
       \<and> isFavorite (blogs st' ! 0)
       \<and> tags (blogs st' ! 0) = [''web'', ''retro'', ''go'']
       \<and> blogs st' ! 1 = blogB)"
proof -
  from envWith_success [OF example_feeds_dated(1)] obtain a
    where s: "snd (analyzeBlogAndFetch (envWith twoPostFeed) (url blogA)) = Inr a"
    by blast
  define st' where "st' = handleRefreshBlog (\<lambda>u. snd (analyzeBlogAndFetch (envWith twoPostFeed) u))
                ''2023-11-14T22:13:20.000Z'' libraryState ''id-a''"
  have ta: "aTags a = [''go'', ''web'']"
    using s by (rule twoPost_tags)
  note T = refresh_frame [where analyze = "\<lambda>u. snd (analyzeBlogAndFetch (envWith twoPostFeed) u)"
      and nowIso = "''2023-11-14T22:13:20.000Z''", OF library_find s, folded st'_def]
  from T have len: "length (blogs st') = length (blogs libraryState)" by (rule conjunct1)
  from T have each: "\<forall>i < length (blogs libraryState).
         (let old = blogs libraryState ! i; new = blogs st' ! i
          in blogId new = blogId old \<and> url new = url old \<and> feedUrl new = feedUrl old
             \<and> category new = category old \<and> sentimentScore new = sentimentScore old
             \<and> language new = language old \<and> isFavorite new = isFavorite old
             \<and> addedAt new = addedAt old
             \<and> new = old\<lparr> title := title new, description := description new,
                         lastBuildDate := lastBuildDate new, posts := posts new,
                         status := status new, stats := stats new,
                         qualityScore := qualityScore new, tags := tags new,
                         lastCheckedAt := lastCheckedAt new \<rparr>
             \<and> (blogId old = ''id-a'' \<longrightarrow> tags new = rev (remdups (rev (tags old @ aTags a))))
             \<and> (blogId old \<noteq> ''id-a'' \<longrightarrow> new = old))"
    by (rule conjunct2)
  have n: "length (blogs libraryState) = 2" "blogs libraryState ! 0 = blogA"
    "blogs libraryState ! 1 = blogB"
    by (simp_all add: library_facts(1))
  from each n have zero: "blogId (blogs st' ! 0) = blogId blogA"
      "category (blogs st' ! 0) = category blogA"
      "isFavorite (blogs st' ! 0) = isFavorite blogA"
      "blogId blogA = ''id-a'' \<longrightarrow> tags (blogs st' ! 0) = rev (remdups (rev (tags blogA @ aTags a)))"
    by (auto simp only: Let_def dest!: spec [of _ 0])
  from each n have one: "blogId blogB \<noteq> ''id-a'' \<longrightarrow> blogs st' ! 1 = blogB"
    by (auto simp only: Let_def dest!: spec [of _ 1])
  have tg: "rev (remdups (rev ([''web'', ''retro''] @ [''go'', ''web'']))) = [''web'', ''retro'', ''go'']"
    by simp
  have "length (blogs st') = 2" using len n(1) by simp
  moreover have "blogId (blogs st' ! 0) = ''id-a''" using zero(1) by (simp only: library_facts)
  moreover have "category (blogs st' ! 0) = ''Technology''" using zero(2) by (simp only: library_facts)
  moreover have "isFavorite (blogs st' ! 0)" using zero(3) library_facts(6) by (simp only:)
  moreover have "tags (blogs st' ! 0) = [''web'', ''retro'', ''go'']"
    using zero(4) by (simp only: library_facts ta tg simp_thms)
  moreover have "blogs st' ! 1 = blogB"
    using one by (simp add: library_facts(3))
  ultimately show ?thesis
    unfolding st'_def [symmetric] Let_def by (intro conjI)
qed

end
